theory Spec2Isabelle
  imports Complex_Main "HOL-Library.Char_ord" "HOL-Library.List_Lexorder" "HOL-Library.Multiset"
begin

section \<open>JavaScript strings\<close>

text \<open>
  A JavaScript string is modelled as a \<^typ>\<open>string\<close>; each \<^typ>\<open>char\<close> stands for one
  UTF-16 code unit below 256 (the Latin-1 range, which contains ASCII).  On this
  range the built-ins used by the UI scripts are total and are written out in full:
  \<open>trim\<close> strips the white-space and line-terminator code units (TAB, LF, VT, FF,
  CR, SPACE and NBSP are the ones below 256), \<open>toLowerCase\<close> maps \<open>A\<close>..\<open>Z\<close> and
  the letters \<open>0xC0\<close>..\<open>0xDE\<close> (without the multiplication sign \<open>0xD7\<close>) to their
  lower-case forms, which lie 32 code units above, and relational operators compare code units lexicographically
  (the lexicographic list order over the order of characters by code).
\<close>

definition is_ws :: "char \<Rightarrow> bool" where
  "is_ws c \<longleftrightarrow> c \<in> set [CHR 0x09, CHR 0x0A, CHR 0x0B, CHR 0x0C, CHR 0x0D, CHR 0x20, CHR 0xA0]"

definition trim :: "string \<Rightarrow> string" where
  "trim s = rev (dropWhile is_ws (rev (dropWhile is_ws s)))"

definition upper_letters :: string where
  "upper_letters = ''ABCDEFGHIJKLMNOPQRSTUVWXYZ'' @
     [CHR 0xC0, CHR 0xC1, CHR 0xC2, CHR 0xC3, CHR 0xC4, CHR 0xC5, CHR 0xC6, CHR 0xC7,
      CHR 0xC8, CHR 0xC9, CHR 0xCA, CHR 0xCB, CHR 0xCC, CHR 0xCD, CHR 0xCE, CHR 0xCF,
      CHR 0xD0, CHR 0xD1, CHR 0xD2, CHR 0xD3, CHR 0xD4, CHR 0xD5, CHR 0xD6,
      CHR 0xD8, CHR 0xD9, CHR 0xDA, CHR 0xDB, CHR 0xDC, CHR 0xDD, CHR 0xDE]"

definition lower_letters :: string where
  "lower_letters = ''abcdefghijklmnopqrstuvwxyz'' @
     [CHR 0xE0, CHR 0xE1, CHR 0xE2, CHR 0xE3, CHR 0xE4, CHR 0xE5, CHR 0xE6, CHR 0xE7,
      CHR 0xE8, CHR 0xE9, CHR 0xEA, CHR 0xEB, CHR 0xEC, CHR 0xED, CHR 0xEE, CHR 0xEF,
      CHR 0xF0, CHR 0xF1, CHR 0xF2, CHR 0xF3, CHR 0xF4, CHR 0xF5, CHR 0xF6,
      CHR 0xF8, CHR 0xF9, CHR 0xFA, CHR 0xFB, CHR 0xFC, CHR 0xFD, CHR 0xFE]"

definition lower_char :: "char \<Rightarrow> char" where
  "lower_char c = (case map_of (zip upper_letters lower_letters) c of None \<Rightarrow> c | Some l \<Rightarrow> l)"

definition toLowerCase :: "string \<Rightarrow> string" where
  "toLowerCase s = map lower_char s"

fun starts_with :: "string \<Rightarrow> string \<Rightarrow> bool" where
  "starts_with [] s = True"
| "starts_with (p # ps) [] = False"
| "starts_with (p # ps) (c # cs) = (p = c \<and> starts_with ps cs)"

text \<open>
  \<open>s.includes(p)\<close>: does \<open>p\<close> occur in \<open>s\<close> as a contiguous run of code units
  (\<open>includes\<close> is a reserved word of the theory language, hence the suffix).
\<close>

fun includes_str :: "string \<Rightarrow> string \<Rightarrow> bool" where
  "includes_str [] p = (p = [])"
| "includes_str (c # cs) p = (starts_with p (c # cs) \<or> includes_str cs p)"

text \<open>\<open>lines.join(sep)\<close> on an array of strings.\<close>

fun join :: "string \<Rightarrow> string list \<Rightarrow> string" where
  "join sep [] = []"
| "join sep [l] = l"
| "join sep (l # m # ls) = l @ sep @ join sep (m # ls)"

text \<open>
  Number-to-string conversion of a non-negative integer (the template literal
  \<open>${v}\<close>): plain decimal digits.  (JavaScript switches to exponent notation only
  from \<open>1e21\<close> on, far beyond any count or kcal sum that is exactly representable.)
\<close>

definition digit_char :: "nat \<Rightarrow> char" where
  "digit_char d = ''0123456789'' ! d"

fun show_nat :: "nat \<Rightarrow> string" where
  "show_nat n = (if n < 10 then [digit_char n] else show_nat (n div 10) @ [digit_char (n mod 10)])"

declare show_nat.simps [simp del]

definition show_int :: "int \<Rightarrow> string" where
  "show_int i = (if i < 0 then CHR ''-'' # show_nat (nat (- i)) else show_nat (nat i))"


section \<open>The insertion-ordered \<open>Map\<close>\<close>

text \<open>
  A JavaScript \<open>Map\<close> enumerates its entries in the order in which the keys were
  first set; setting an existing key replaces the value and keeps the position.
  It is an association list with distinct keys.
\<close>

type_synonym ('k, 'v) jsmap = "('k \<times> 'v) list"

definition map_get :: "('k, 'v) jsmap \<Rightarrow> 'k \<Rightarrow> 'v option" where
  "map_get m k = map_of m k"

fun map_set :: "'k \<Rightarrow> 'v \<Rightarrow> ('k, 'v) jsmap \<Rightarrow> ('k, 'v) jsmap" where
  "map_set k v [] = [(k, v)]"
| "map_set k v ((k', v') # m) = (if k' = k then (k, v) # m else (k', v') # map_set k v m)"


section \<open>Grocery aggregation (\<open>ui/plan-week.js\<close>, \<open>ui/plan.js\<close>)\<close>

text \<open>
  A day plan as the aggregation reads it.  A field that may be missing in the JSON
  is an \<open>option\<close>; an ingredient entry is \<open>None\<close> when it is \<open>null\<close>.  The
  plans, their meals and the lists in them are taken to have these JSON types.
\<close>

record meal =
  ingredients :: "string option list option"

record plan =
  meals :: "meal list option"
  grocery_list :: "string option list option"

text \<open>\<open>raw || ''''\<close>: \<open>null\<close> and the empty string are both falsy.\<close>

definition or_empty :: "string option \<Rightarrow> string" where
  "or_empty raw = (case raw of None \<Rightarrow> [] | Some s \<Rightarrow> s)"

text \<open>\<open>counts.get(key) || 0\<close>.\<close>

definition get_or0 :: "(string, nat) jsmap \<Rightarrow> string \<Rightarrow> nat" where
  "get_or0 counts key = (case map_get counts key of None \<Rightarrow> 0 | Some n \<Rightarrow> n)"

text \<open>\<open>counts.set(key, (counts.get(key) || 0) + 1)\<close>\<close>

definition bump :: "(string, nat) jsmap \<Rightarrow> string \<Rightarrow> (string, nat) jsmap" where
  "bump counts key = map_set key (get_or0 counts key + 1) counts"

text \<open>
  The innermost loop, identical in \<open>aggregateIngredients\<close> and
  \<open>buildCombinedGrocery\<close>:
  \<^verbatim>\<open>for (const raw of ...) { const key = (raw || '').trim(); if (!key) continue;
     counts.set(key, (counts.get(key) || 0) + 1); }\<close>
\<close>

fun count_raws :: "(string, nat) jsmap \<Rightarrow> string option list \<Rightarrow> (string, nat) jsmap" where
  "count_raws counts [] = counts"
| "count_raws counts (raw # raws) =
     (let key = trim (or_empty raw)
      in if key = [] then count_raws counts raws
         else count_raws (bump counts key) raws)"

text \<open>\<open>for (const m of (p?.meals || [])) if (Array.isArray(m.ingredients)) ...\<close>\<close>

fun count_meals :: "(string, nat) jsmap \<Rightarrow> meal list \<Rightarrow> (string, nat) jsmap" where
  "count_meals counts [] = counts"
| "count_meals counts (m # ms) =
     (case ingredients m of
        None \<Rightarrow> count_meals counts ms
      | Some raws \<Rightarrow> count_meals (count_raws counts raws) ms)"

fun count_plans :: "(string, nat) jsmap \<Rightarrow> plan list \<Rightarrow> (string, nat) jsmap" where
  "count_plans counts [] = counts"
| "count_plans counts (p # ps) =
     count_plans (count_meals counts (case meals p of None \<Rightarrow> [] | Some ms \<Rightarrow> ms)) ps"

text \<open>
  \<open>aggregateIngredients(plans)\<close> of \<open>ui/plan-week.js\<close>; the argument is
  \<open>window.__glyco_weekPlans\<close>, which is undefined (\<open>None\<close>) before the first
  successful load.
\<close>

definition aggregateIngredients :: "plan list option \<Rightarrow> (string, nat) jsmap" where
  "aggregateIngredients plans = count_plans [] (case plans of None \<Rightarrow> [] | Some ps \<Rightarrow> ps)"

text \<open>
  The aggregation loop of \<open>buildCombinedGrocery\<close> of \<open>ui/plan.js\<close>:
  \<^verbatim>\<open>for (const p of plans) for (const raw of (p.grocery_list || [])) ...\<close>
\<close>

fun count_grocery_lists :: "(string, nat) jsmap \<Rightarrow> plan list \<Rightarrow> (string, nat) jsmap" where
  "count_grocery_lists items [] = items"
| "count_grocery_lists items (p # ps) =
     count_grocery_lists
       (count_raws items (case grocery_list p of None \<Rightarrow> [] | Some g \<Rightarrow> g)) ps"

definition combinedGrocery :: "plan list option \<Rightarrow> (string, nat) jsmap" where
  "combinedGrocery plans = count_grocery_lists [] (case plans of None \<Rightarrow> [] | Some ps \<Rightarrow> ps)"


text \<open>
  The strings the two loops meet, in encounter order, and what the specification
  calls the trim-skip-count fold over a sequence of strings: the trimmed, non-empty
  strings \<open>kept\<close>, their first occurrences in order \<open>first_seen\<close>, each with its
  number of occurrences.
\<close>

definition meal_stream :: "meal list \<Rightarrow> string option list" where
  "meal_stream ms = concat (map (\<lambda>m. case ingredients m of None \<Rightarrow> [] | Some raws \<Rightarrow> raws) ms)"

definition ingredient_stream :: "plan list \<Rightarrow> string option list" where
  "ingredient_stream ps =
     concat (map (\<lambda>p. meal_stream (case meals p of None \<Rightarrow> [] | Some ms \<Rightarrow> ms)) ps)"

definition grocery_stream :: "plan list \<Rightarrow> string option list" where
  "grocery_stream ps = concat (map (\<lambda>p. case grocery_list p of None \<Rightarrow> [] | Some g \<Rightarrow> g) ps)"

definition kept :: "string option list \<Rightarrow> string list" where
  "kept raws = filter (\<lambda>k. k \<noteq> []) (map (\<lambda>raw. trim (or_empty raw)) raws)"

fun first_seen_from :: "'a list \<Rightarrow> 'a list \<Rightarrow> 'a list" where
  "first_seen_from seen [] = []"
| "first_seen_from seen (k # ks) =
     (if k \<in> set seen then first_seen_from seen ks else k # first_seen_from (seen @ [k]) ks)"

definition first_seen :: "'a list \<Rightarrow> 'a list" where
  "first_seen ks = first_seen_from [] ks"

definition tally :: "string option list \<Rightarrow> (string, nat) jsmap" where
  "tally raws = map (\<lambda>k. (k, count_list (kept raws) k)) (first_seen (kept raws))"

text \<open>
  The selection of strings as the specification words it: a record's
  \<open>grocery_list\<close> when the field is present, otherwise its flattened per-meal
  ingredients.
\<close>

definition spec_select :: "plan \<Rightarrow> string option list" where
  "spec_select p =
     (case grocery_list p of
        Some g \<Rightarrow> g
      | None \<Rightarrow> meal_stream (case meals p of None \<Rightarrow> [] | Some ms \<Rightarrow> ms))"

definition spec_stream :: "plan list \<Rightarrow> string option list" where
  "spec_stream ps = concat (map spec_select ps)"


section \<open>Grocery export (\<open>exportTxt\<close>, \<open>exportCsv\<close>, \<open>buildCombinedGrocery\<close>)\<close>

definition nl :: string where
  "nl = [CHR 0x0A]"

definition dq :: string where
  "dq = [CHR 0x22]"

text \<open>\<^verbatim>\<open>v>1 ? `- ${k}  x${v}` : `- ${k}`\<close>\<close>

definition txt_line :: "string \<Rightarrow> nat \<Rightarrow> string" where
  "txt_line k v = (if v > 1 then ''- '' @ k @ ''  x'' @ show_nat v else ''- '' @ k)"

fun txt_lines :: "string list \<Rightarrow> (string, nat) jsmap \<Rightarrow> string list" where
  "txt_lines lines [] = lines"
| "txt_lines lines ((k, v) # m) = txt_lines (lines @ [txt_line k v]) m"

definition toText :: "(string, nat) jsmap \<Rightarrow> string" where
  "toText m = join nl (txt_lines [] m)"

text \<open>\<open>k.replace(/"/g, '""')\<close>: every double quote is doubled.\<close>

fun double_quotes :: "string \<Rightarrow> string" where
  "double_quotes [] = []"
| "double_quotes (c # cs) = (if [c] = dq then dq @ dq @ double_quotes cs else c # double_quotes cs)"

text \<open>\<^verbatim>\<open>const safe = '"' + k.replace(/"/g, '""') + '"'; lines.push(`${safe},${v}`)\<close>\<close>

definition csv_line :: "string \<Rightarrow> nat \<Rightarrow> string" where
  "csv_line k v = (dq @ double_quotes k @ dq) @ '','' @ show_nat v"

fun csv_lines :: "string list \<Rightarrow> (string, nat) jsmap \<Rightarrow> string list" where
  "csv_lines lines [] = lines"
| "csv_lines lines ((k, v) # m) = csv_lines (lines @ [csv_line k v]) m"

definition toCsv :: "(string, nat) jsmap \<Rightarrow> string" where
  "toCsv m = join nl (csv_lines [''item,count''] m)"

text \<open>
  \<open>download(filename, text)\<close> hands a file to the browser; the effect is recorded
  as the pair of the file name and its content.
\<close>

definition download :: "string \<Rightarrow> string \<Rightarrow> string \<times> string" where
  "download filename text = (filename, text)"

definition exportTxt :: "plan list option \<Rightarrow> string \<times> string" where
  "exportTxt plans = download ''grocery-week.txt'' (toText (aggregateIngredients plans))"

definition exportCsv :: "plan list option \<Rightarrow> string \<times> string" where
  "exportCsv plans = download ''grocery-week.csv'' (toCsv (aggregateIngredients plans))"

definition buildCombinedGrocery :: "string \<Rightarrow> plan list option \<Rightarrow> string" where
  "buildCombinedGrocery format plans =
     (let items = combinedGrocery plans
      in if format = ''csv'' then toCsv items else toText items)"


text \<open>
  The two line formats in the words of the specification: \<open>- item\<close> for a count of
  1 and \<open>- item  xN\<close> for a larger one; the item between double quotes with every
  inner double quote doubled, a comma, the count.
\<close>

definition spec_txt_line :: "string \<times> nat \<Rightarrow> string" where
  "spec_txt_line = (\<lambda>(k, v). if v = 1 then ''- '' @ k else ''- '' @ k @ ''  x'' @ show_nat v)"

definition spec_csv_row :: "string \<times> nat \<Rightarrow> string" where
  "spec_csv_row =
     (\<lambda>(k, v). dq @ concat (map (\<lambda>c. if c = CHR 0x22 then [c, c] else [c]) k) @ dq
               @ '','' @ show_nat v)"


section \<open>Sport normalisation (\<open>normalizeSport\<close>, \<open>ui/activities.js\<close>)\<close>

text \<open>
  An activity as the scripts read it.  A field is \<open>None\<close> when it is missing or
  \<open>null\<close>; numbers are the rationals that the JSON numerals denote.
\<close>

record activity =
  sport_label :: "string option"
  sport :: "string option"
  type :: "string option"
  name :: "string option"
  distance_m :: "rat option"
  duration_sec :: "rat option"
  kcal :: "rat option"
  start_time :: "string option"
  date :: "string option"

text \<open>\<open>x || y\<close> on optional strings: the empty string is falsy as well.\<close>

definition or_str :: "string option \<Rightarrow> string option \<Rightarrow> string option" where
  "or_str x y = (case x of None \<Rightarrow> y | Some s \<Rightarrow> if s = [] then y else Some s)"

text \<open>\<open>Number(x || 0)\<close> on an optional number.\<close>

definition or_zero :: "rat option \<Rightarrow> rat" where
  "or_zero x = (case x of None \<Rightarrow> 0 | Some r \<Rightarrow> r)"

text \<open>
  The literal \<open>map\<close> of \<open>normalizeSport\<close>, in source order.  It is a plain object, so
  the index expression \<open>map[t]\<close> finds an own property of the literal or else a member
  inherited from \<open>Object.prototype\<close> (a function, or the prototype object itself for
  \<open>__proto__\<close>); all of these are truthy.  The value returned by \<open>normalizeSport\<close> is
  therefore either a string or such an inherited member, named by its key.
\<close>

definition sport_table :: "(string \<times> string) list" where
  "sport_table =
    [(''Run'', ''Running''),
     (''TrailRun'', ''Running''),
     (''Ride'', ''Cycling''),
     (''VirtualRide'', ''Cycling (Virtual)''),
     (''WeightTraining'', ''Strength''),
     (''StrengthTraining'', ''Strength''),
     (''Walk'', ''Walking''),
     (''Hike'', ''Hiking''),
     (''Swim'', ''Swimming''),
     (''Rowing'', ''Rowing''),
     (''IndoorCycling'', ''Cycling (Virtual)''),
     (''Crossfit'', ''CrossFit''),
     (''Yoga'', ''Yoga''),
     (''Elliptical'', ''Elliptical''),
     (''StairStepper'', ''Stair Stepper''),
     (''NordicSki'', ''Skiing''),
     (''AlpineSki'', ''Skiing''),
     (''Snowboard'', ''Snowboard'')]"

definition object_prototype_members :: "string list" where
  "object_prototype_members =
    [''constructor'', ''__defineGetter__'', ''__defineSetter__'', ''hasOwnProperty'',
     ''__lookupGetter__'', ''__lookupSetter__'', ''isPrototypeOf'', ''propertyIsEnumerable'',
     ''toString'', ''valueOf'', ''__proto__'', ''toLocaleString'']"

datatype sportval = Label string | Inherited string

definition map_index :: "string \<Rightarrow> sportval option" where
  "map_index t =
     (case map_of sport_table t of
        Some v \<Rightarrow> Some (Label v)
      | None \<Rightarrow> if t \<in> set object_prototype_members then Some (Inherited t) else None)"

text \<open>The body of \<open>normalizeSport\<close> after the label guard.\<close>

definition sport_by_type :: "activity \<Rightarrow> sportval" where
  "sport_by_type a =
     (let t = trim (or_empty (type a));
          nm = toLowerCase (or_empty (name a));
          dist = or_zero (distance_m a)
      in case map_index t of
           Some v \<Rightarrow> v
         | None \<Rightarrow>
             if t = ''Workout'' \<or> t = [] then
               if dist > 1000 then
                 if includes_str nm ''zwift'' \<or> includes_str nm ''trainerroad''
                      \<or> includes_str nm ''virtual''
                 then Label ''Cycling (Virtual)''
                 else Label ''Cycling''
               else if includes_str nm ''upper body'' \<or> includes_str nm ''strength''
                         \<or> includes_str nm ''core''
               then Label ''Strength''
               else Label ''Workout''
             else Label t)"

text \<open>
  \<^verbatim>\<open>const label = a.sport_label || a.sport;
  if (label && typeof label === 'string') return label;\<close>
\<close>

definition normalizeSport :: "activity \<Rightarrow> sportval" where
  "normalizeSport a =
     (case or_str (sport_label a) (sport a) of
        None \<Rightarrow> sport_by_type a
      | Some label \<Rightarrow> if label \<noteq> [] then Label label else sport_by_type a)"

text \<open>
  Sport normalisation as the specification words it: the table (in the order of
  the specification), the table value for a mapped type, an unmapped non-empty
  type verbatim, and for an empty or \<open>Workout\<close> type the heuristics (virtual cycling
  for a distance above 1000 with one of the three names, \<open>Strength\<close> for a
  strength-related name, otherwise \<open>Workout\<close>).
\<close>

definition spec_sport_table :: "(string \<times> string) list" where
  "spec_sport_table =
    [(''Run'', ''Running''), (''TrailRun'', ''Running''),
     (''Ride'', ''Cycling''),
     (''VirtualRide'', ''Cycling (Virtual)''), (''IndoorCycling'', ''Cycling (Virtual)''),
     (''WeightTraining'', ''Strength''), (''StrengthTraining'', ''Strength''),
     (''Walk'', ''Walking''),
     (''Hike'', ''Hiking''),
     (''Swim'', ''Swimming''),
     (''Rowing'', ''Rowing''),
     (''Crossfit'', ''CrossFit''),
     (''Yoga'', ''Yoga''),
     (''Elliptical'', ''Elliptical''),
     (''StairStepper'', ''Stair Stepper''),
     (''NordicSki'', ''Skiing''), (''AlpineSki'', ''Skiing''),
     (''Snowboard'', ''Snowboard'')]"

definition virtual_name :: "string \<Rightarrow> bool" where
  "virtual_name nm \<longleftrightarrow>
     includes_str nm ''zwift'' \<or> includes_str nm ''trainerroad'' \<or> includes_str nm ''virtual''"

definition strength_name :: "string \<Rightarrow> bool" where
  "strength_name nm \<longleftrightarrow>
     includes_str nm ''upper body'' \<or> includes_str nm ''strength'' \<or> includes_str nm ''core''"

definition spec_normalizeSport :: "activity \<Rightarrow> string" where
  "spec_normalizeSport a =
     (let t = or_empty (type a); nm = toLowerCase (or_empty (name a)); dist = or_zero (distance_m a)
      in case map_of spec_sport_table t of
           Some v \<Rightarrow> v
         | None \<Rightarrow>
             if t \<noteq> [] \<and> t \<noteq> ''Workout'' then t
             else if dist > 1000 \<and> virtual_name nm then ''Cycling (Virtual)''
             else if strength_name nm then ''Strength''
             else ''Workout'')"

text \<open>The non-empty string found in \<open>sport_label\<close>, or else in \<open>sport\<close>.\<close>

definition own_label :: "activity \<Rightarrow> string option" where
  "own_label a =
     (case sport_label a of
        Some l \<Rightarrow> if l \<noteq> [] then Some l
                  else (case sport a of None \<Rightarrow> None | Some l' \<Rightarrow> if l' \<noteq> [] then Some l' else None)
      | None \<Rightarrow> (case sport a of None \<Rightarrow> None | Some l' \<Rightarrow> if l' \<noteq> [] then Some l' else None))"


section \<open>Day and sport aggregation (\<open>aggregateClientSide\<close>, \<open>ui/activities.js\<close>)\<close>

text \<open>
  \<open>fmt.dateISO(d)\<close>: a string is cut to its first ten code units; a \<open>Date\<close> object,
  represented by the text of its \<open>toISOString()\<close>, likewise.
\<close>

datatype dateval = DStr string | DDate string

fun dateISO :: "dateval \<Rightarrow> string" where
  "dateISO (DStr d) = take 10 d"
| "dateISO (DDate txt) = take 10 txt"

text \<open>
  \<open>fmt.dateISO(a.start_time || a.date || new Date())\<close>; \<open>now\<close> is the ISO text of the
  clock, taken to show the same date throughout one aggregation.
\<close>

definition act_date :: "string \<Rightarrow> activity \<Rightarrow> string" where
  "act_date now a =
     dateISO (case or_str (start_time a) (date a) of
                None \<Rightarrow> DDate now
              | Some d \<Rightarrow> if d \<noteq> [] then DStr d else DDate now)"

text \<open>The local function \<open>within\<close> of \<open>aggregateClientSide\<close>.\<close>

definition within_range :: "string \<Rightarrow> string \<Rightarrow> string \<Rightarrow> bool" where
  "within_range fromISO toISO dISO \<longleftrightarrow> dISO \<ge> fromISO \<and> dISO \<le> toISO"

text \<open>\<open>Math.round\<close>: the nearest integer, ties towards plus infinity.\<close>

definition math_round :: "rat \<Rightarrow> int" where
  "math_round x = \<lfloor>x + 1 / 2\<rfloor>"

definition act_kcal :: "activity \<Rightarrow> int" where
  "act_kcal a = math_round (or_zero (kcal a))"

text \<open>
  The per-day breakdown \<open>by_sport\<close> is a plain object (\<open>{}\<close>), not a \<open>Map\<close>.  Its own
  properties are kept as an association list; a property holds a number or, once a
  string has been concatenated into it, a text.  Reading a key that is not an own
  property falls through to \<open>Object.prototype\<close>: for the twelve member names the
  read yields the inherited member, whose conversion to a string is
  \<open>member_text\<close> (the rendering of V8 is used for the native functions).  Writing
  the key \<open>__proto__\<close> runs the inherited setter, which ignores a value that is
  neither an object nor \<open>null\<close>, so no own property appears.
\<close>

datatype propval = PNum int | PText string

text \<open>
  The text of an inherited member: \<open>[object Object]\<close> for the prototype object that
  \<open>__proto__\<close> reads, the source text of the native function otherwise (the function
  found under \<open>constructor\<close> is \<open>Object\<close>).
\<close>

definition member_text :: "string \<Rightarrow> string" where
  "member_text k =
     (if k = ''__proto__'' then ''[object Object]''
      else ''function '' @ (if k = ''constructor'' then ''Object'' else k) @ ''() { [native code] }'')"

text \<open>The property key that a sport value is converted to.\<close>

fun prop_key :: "sportval \<Rightarrow> string" where
  "prop_key (Label s) = s"
| "prop_key (Inherited k) = member_text k"

text \<open>\<open>d.by_sport[sport] = (d.by_sport[sport] || 0) + kcal\<close>\<close>

definition by_sport_add :: "(string \<times> propval) list \<Rightarrow> sportval \<Rightarrow> int \<Rightarrow> (string \<times> propval) list" where
  "by_sport_add obj sp kc =
     (let key = prop_key sp;
          new = (case map_of obj key of
                   Some (PNum n) \<Rightarrow> PNum (n + kc)
                 | Some (PText s) \<Rightarrow> if s = [] then PNum kc else PText (s @ show_int kc)
                 | None \<Rightarrow>
                     if key \<in> set object_prototype_members
                     then PText (member_text key @ show_int kc)
                     else PNum kc)
      in if key = ''__proto__'' then obj else map_set key new obj)"

text \<open>A day of the result; its field \<open>date\<close> is called \<open>day_date\<close> here.\<close>

record day =
  day_date :: string
  training_kcal :: int
  planned_kcal :: int
  by_sport :: "(string \<times> propval) list"

record agg_state =
  daysMap :: "(string, day) jsmap"
  sportMap :: "(sportval, int) jsmap"
  actCount :: nat
  totalK :: int

text \<open>The callback of \<open>items.forEach\<close>.\<close>

definition agg_step :: "string \<Rightarrow> string \<Rightarrow> string \<Rightarrow> agg_state \<Rightarrow> activity \<Rightarrow> agg_state" where
  "agg_step now fromISO toISO st a =
     (let dt = act_date now a
      in if \<not> within_range fromISO toISO dt then st
         else
           let kc = act_kcal a;
               sp = normalizeSport a;
               d = (case map_get (daysMap st) dt of
                      Some d0 \<Rightarrow> d0
                    | None \<Rightarrow> \<lparr>day_date = dt, training_kcal = 0, planned_kcal = 0, by_sport = []\<rparr>);
               d' = d\<lparr>training_kcal := training_kcal d + kc,
                       by_sport := by_sport_add (by_sport d) sp kc\<rparr>
           in \<lparr>daysMap = map_set dt d' (daysMap st),
               sportMap = map_set sp ((case map_get (sportMap st) sp of None \<Rightarrow> 0 | Some n \<Rightarrow> n) + kc)
                            (sportMap st),
               actCount = actCount st + 1,
               totalK = totalK st + kc\<rparr>)"

fun agg_loop :: "string \<Rightarrow> string \<Rightarrow> string \<Rightarrow> agg_state \<Rightarrow> activity list \<Rightarrow> agg_state" where
  "agg_loop now fromISO toISO st [] = st"
| "agg_loop now fromISO toISO st (a # items) =
     agg_loop now fromISO toISO (agg_step now fromISO toISO st a) items"

text \<open>
  \<open>Array.prototype.sort\<close> with the comparator \<open>(a,b) => (a.date < b.date ? -1 : 1)\<close>.
  The sorting algorithm is the engine's; insertion sort driven by the comparator
  stands for it (the dates of the days of a \<open>Map\<close> are pairwise distinct, and on
  such input every comparison sort returns the same sequence).
\<close>

definition day_cmp :: "day \<Rightarrow> day \<Rightarrow> int" where
  "day_cmp a b = (if day_date a < day_date b then - 1 else 1)"

fun insert_by :: "('a \<Rightarrow> 'a \<Rightarrow> int) \<Rightarrow> 'a \<Rightarrow> 'a list \<Rightarrow> 'a list" where
  "insert_by cmp x [] = [x]"
| "insert_by cmp x (y # ys) = (if cmp x y < 0 then x # y # ys else y # insert_by cmp x ys)"

definition sort_by :: "('a \<Rightarrow> 'a \<Rightarrow> int) \<Rightarrow> 'a list \<Rightarrow> 'a list" where
  "sort_by cmp xs = foldr (insert_by cmp) xs []"

record summary =
  total_training_kcal :: int
  total_planned_kcal :: int
  activity_count :: nat
  totals_by_sport :: "(sportval \<times> int) list"
  days :: "day list"

text \<open>
  \<open>aggregateClientSide(items, fromISO, toISO)\<close>.  The display string
  \<open>by_sport_text\<close> that the function also attaches to every day is left out.
\<close>

definition aggregateClientSide :: "string \<Rightarrow> activity list \<Rightarrow> string \<Rightarrow> string \<Rightarrow> summary" where
  "aggregateClientSide now items fromISO toISO =
     (let st = agg_loop now fromISO toISO
                 \<lparr>daysMap = [], sportMap = [], actCount = 0, totalK = 0\<rparr> items
      in \<lparr>total_training_kcal = totalK st,
          total_planned_kcal = 0,
          activity_count = actCount st,
          totals_by_sport = sportMap st,
          days = sort_by day_cmp (map snd (daysMap st))\<rparr>)"


section \<open>Day and sport grouping of the summary page (\<open>ui/summary.js\<close>)\<close>











text \<open>
  The activities that the range \<open>[fromISO, toISO]\<close> admits, and the sum of the
  values of a \<open>by_sport\<close> object (\<open>None\<close> when one of them is not a number).
\<close>

definition in_range :: "string \<Rightarrow> string \<Rightarrow> string \<Rightarrow> activity list \<Rightarrow> activity list" where
  "in_range now fromISO toISO items =
     filter (\<lambda>a. fromISO \<le> act_date now a \<and> act_date now a \<le> toISO) items"

fun numeric_total :: "(string \<times> propval) list \<Rightarrow> int option" where
  "numeric_total [] = Some 0"
| "numeric_total ((k, PNum n) # obj) = map_option (\<lambda>s. n + s) (numeric_total obj)"
| "numeric_total ((k, PText s) # obj) = None"


text \<open>A sample activity: a start time, a sport label and a kcal value, nothing else.\<close>

definition activity_on :: "string \<Rightarrow> string \<Rightarrow> rat \<Rightarrow> activity" where
  "activity_on d s k =
     \<lparr>sport_label = None, sport = Some s, type = None, name = None,
      distance_m = None, duration_sec = None, kcal = Some k, start_time = Some d, date = None\<rparr>"


section \<open>The HTTP client adapter (\<open>fetchJSON\<close>, \<open>ui/app.js\<close>)\<close>





















section \<open>The week loader (\<open>loadWeek\<close>, \<open>ui/plan-week.js\<close> and \<open>ui/plan.js\<close>)\<close>

text \<open>
  A \<open>Date\<close> object is represented by its time value in milliseconds, \<open>None\<close> for an
  Invalid Date.  \<open>d.setUTCDate(startUtc.getUTCDate() + i)\<close> moves a valid time by
  \<open>i\<close> days and makes it invalid outside the range of time values;
  \<open>fmt.dateISO(d)\<close> then calls \<open>toISOString\<close>, which throws a \<open>RangeError\<close> on an
  Invalid Date.  A date text is represented by the time value that it formats.
\<close>

definition MAX_TIME :: int where
  "MAX_TIME = 8640000000000000"

definition MS_PER_DAY :: int where
  "MS_PER_DAY = 86400000"

definition setUTCDate_plus :: "int option \<Rightarrow> int \<Rightarrow> int option" where
  "setUTCDate_plus startUtc i =
     (case startUtc of
        None \<Rightarrow> None
      | Some t \<Rightarrow> if \<bar>t + i * MS_PER_DAY\<bar> \<le> MAX_TIME then Some (t + i * MS_PER_DAY) else None)"

text \<open>
  \<open>weekDates(startUtc)\<close> of \<open>ui/plan-week.js\<close> and \<open>datesOfWeek(s)\<close> of
  \<open>ui/plan.js\<close>: the seven dates from the start on, or \<open>None\<close> when formatting one
  of them throws.
\<close>

definition weekDates :: "int option \<Rightarrow> int list option" where
  "weekDates startUtc = those (map (setUTCDate_plus startUtc) [0, 1, 2, 3, 4, 5, 6])"

definition datesOfWeek :: "int option \<Rightarrow> int list option" where
  "datesOfWeek s = those (map (setUTCDate_plus s) [0, 1, 2, 3, 4, 5, 6])"

text \<open>
  The state that \<open>loadWeek\<close> of \<open>ui/plan-week.js\<close> touches: the day cards in the
  grid (a card is determined by the plan it renders), the list stored in
  \<open>window.__glyco_weekPlans\<close> (\<open>None\<close> while nothing has been stored), and the two
  alert boxes (\<open>None\<close> when hidden).  The elements of the page are taken to exist.
  An element of a fetched list is a plan, or \<open>None\<close> for \<open>null\<close>.
\<close>

record ui =
  grid :: "plan list"
  weekPlans :: "plan option list option"
  alert_ok :: "string option"
  alert_err :: "string option"

text \<open>
  \<open>loadWeek\<close> is an \<open>async\<close> function with a single suspension point, the
  \<open>await Promise.all(...)\<close>.  The part before it runs when the load is triggered,
  with the content of the start-date field and the \<open>Date\<close> that
  \<open>new Date(startStr + 'T00:00:00Z')\<close> makes of it.  When \<open>weekDates\<close> throws, the
  function ends there, before the grid is cleared and outside the \<open>try\<close>: the
  alerts have been cleared and nothing else has changed (the rejection goes to the
  handler of the page, which is not part of this state).
\<close>

definition loadWeek_begin :: "string \<Rightarrow> int option \<Rightarrow> ui \<Rightarrow> ui" where
  "loadWeek_begin startStr startUtc u =
     (let u1 = u\<lparr>alert_ok := None, alert_err := None\<rparr>
      in if startStr = [] then u1\<lparr>alert_err := Some ''Pick a start date.''\<rparr>
         else case weekDates startUtc of
                None \<Rightarrow> u1
              | Some dates \<Rightarrow> u1\<lparr>grid := []\<rparr>)"

text \<open>
  What a fetch of a day plan resolves to is a plan or \<open>null\<close> (\<open>fetchJSON\<close> returns
  \<open>null\<close> for a JSON body that does not parse).  A value without fields, such as
  the text of a body that is not JSON, reads like the plan in which every field is
  missing.  \<open>renderDayCard(container, plan)\<close> builds the card and appends it to the
  container as its last statement.  On \<open>null\<close> it throws a \<open>TypeError\<close> at
  \<open>plan.date\<close>, before anything is appended (the message is the one of V8; other
  engines word it differently).  On a plan it does not throw: the fields that a
  card shows are taken to be texts and numbers, and the meals to be objects.
\<close>

definition null_date_message :: string where
  "null_date_message = ''Cannot read properties of null (reading 'date')''"

definition renderDayCard :: "plan list \<Rightarrow> plan option \<Rightarrow> string + plan list" where
  "renderDayCard container plan =
     (case plan of None \<Rightarrow> Inl null_date_message | Some p \<Rightarrow> Inr (container @ [p]))"

text \<open>
  \<open>for (const p of plans) renderDayCard(grid, p)\<close>: the grid after the loop, and the
  message of the error that ended it early, if one did.
\<close>

fun render_all :: "plan list \<Rightarrow> plan option list \<Rightarrow> plan list \<times> string option" where
  "render_all g [] = (g, None)"
| "render_all g (p # ps) =
     (case renderDayCard g p of
        Inl msg \<Rightarrow> (g, Some msg)
      | Inr g' \<Rightarrow> render_all g' ps)"

text \<open>\<open>err(e.message || 'Failed to load week.')\<close>\<close>

definition failure_text :: "string \<Rightarrow> string" where
  "failure_text msg = (if msg \<noteq> [] then msg else ''Failed to load week.'')"

text \<open>
  The part of \<open>loadWeek\<close> after the \<open>await\<close>, inside the \<open>try\<close>.  It receives the
  seven fetched values in date order, or the \<open>message\<close> of the error that one of the
  fetches was rejected with.  The cards are appended one by one; only when all of
  them have been rendered is the list stored and the success alert shown.  When
  rendering throws, the cards appended so far stay, the \<open>catch\<close> shows the message,
  and the stored list is the one of before.
\<close>

definition loadWeek_resume :: "string + plan option list \<Rightarrow> ui \<Rightarrow> ui" where
  "loadWeek_resume r u =
     (case r of
        Inl msg \<Rightarrow> u\<lparr>alert_err := Some (failure_text msg)\<rparr>
      | Inr plans \<Rightarrow>
          (case render_all (grid u) plans of
             (g, None) \<Rightarrow> u\<lparr>grid := g, weekPlans := Some plans, alert_ok := Some ''Week loaded.''\<rparr>
           | (g, Some msg) \<Rightarrow> u\<lparr>grid := g, alert_err := Some (failure_text msg)\<rparr>))"

text \<open>
  \<open>loadWeek\<close> of \<open>ui/plan.js\<close> has the same shape.  It sets the status line to
  \<open>Loading\<close> first and reports there instead of in the alert boxes; when
  \<open>datesOfWeek\<close> throws, the status stays at \<open>Loading\<close> and the grid is not
  cleared.  It awaits the seven fetches one after the other, changing nothing in
  between, so that they are one settlement here too.  Its \<open>renderDayCard\<close> reads
  \<open>plan.date\<close> before any other field and appends the card as its last statement.
\<close>

datatype wstatus = Blank | Loading | PickStart | Loaded | Failed string

record plan_ui =
  w_grid :: "plan list"
  w_weekPlans :: "plan option list option"
  w_status :: wstatus

definition plan_loadWeek_begin :: "string \<Rightarrow> int option \<Rightarrow> plan_ui \<Rightarrow> plan_ui" where
  "plan_loadWeek_begin startISO s u =
     (let u1 = u\<lparr>w_status := Loading\<rparr>
      in if startISO = [] then u1\<lparr>w_status := PickStart\<rparr>
         else case datesOfWeek s of
                None \<Rightarrow> u1
              | Some ds \<Rightarrow> u1\<lparr>w_grid := []\<rparr>)"

definition plan_loadWeek_resume :: "string + plan option list \<Rightarrow> plan_ui \<Rightarrow> plan_ui" where
  "plan_loadWeek_resume r u =
     (case r of
        Inl msg \<Rightarrow> u\<lparr>w_status := Failed (failure_text msg)\<rparr>
      | Inr plans \<Rightarrow>
          (case render_all (w_grid u) plans of
             (g, None) \<Rightarrow> u\<lparr>w_grid := g, w_weekPlans := Some plans, w_status := Loaded\<rparr>
           | (g, Some msg) \<Rightarrow> u\<lparr>w_grid := g, w_status := Failed (failure_text msg)\<rparr>))"

text \<open>
  The events of the page, in the order in which the single thread handles them: a
  load is triggered (with the start string and the \<open>Date\<close> made of it), or the
  fetches of a load have settled.  Each event carries the number of the load it
  belongs to; the code keeps no such number, so the transition does not look at
  it.
\<close>

datatype event = Trigger nat string "int option" | Settle nat "string + plan option list"

fun step :: "ui \<Rightarrow> event \<Rightarrow> ui" where
  "step u (Trigger i startStr startUtc) = loadWeek_begin startStr startUtc u"
| "step u (Settle i r) = loadWeek_resume r u"

definition run :: "ui \<Rightarrow> event list \<Rightarrow> ui" where
  "run u evs = foldl step u evs"

fun plan_step :: "plan_ui \<Rightarrow> event \<Rightarrow> plan_ui" where
  "plan_step u (Trigger i startISO s) = plan_loadWeek_begin startISO s u"
| "plan_step u (Settle i r) = plan_loadWeek_resume r u"

definition plan_run :: "plan_ui \<Rightarrow> event list \<Rightarrow> plan_ui" where
  "plan_run u evs = foldl plan_step u evs"

text \<open>
  A trigger starts a load when the start string is not empty and the seven dates
  can be formatted (which is the same question in both loaders); only then is the
  grid cleared and are the plans fetched.
\<close>

definition starts_load :: "string \<Rightarrow> int option \<Rightarrow> bool" where
  "starts_load s t \<longleftrightarrow> s \<noteq> [] \<and> weekDates t \<noteq> None"

text \<open>
  What the specification asks for: the state reflects the most recently triggered
  load, that is, the stored list is the one delivered to the load that was started
  last, once that load has settled with seven plans.
\<close>

fun last_triggered :: "event list \<Rightarrow> nat option" where
  "last_triggered [] = None"
| "last_triggered (Trigger i s t # evs) =
     (case last_triggered evs of
        None \<Rightarrow> (if starts_load s t then Some i else None)
      | Some j \<Rightarrow> Some j)"
| "last_triggered (Settle i r # evs) = last_triggered evs"

fun plans_of_load :: "nat \<Rightarrow> event list \<Rightarrow> plan option list option" where
  "plans_of_load i [] = None"
| "plans_of_load i (Settle j (Inr ps) # evs) =
     (if i = j \<and> None \<notin> set ps then Some ps else plans_of_load i evs)"
| "plans_of_load i (e # evs) = plans_of_load i evs"

definition newest_load_plans :: "event list \<Rightarrow> plan option list option" where
  "newest_load_plans evs =
     (case last_triggered evs of None \<Rightarrow> None | Some i \<Rightarrow> plans_of_load i evs)"

text \<open>
  What the code keeps: the list of the load that was the last to settle with seven
  plans, and in the grid the cards rendered since a trigger last cleared it; a
  settlement contributes the cards of the plans before its first \<open>null\<close>.
\<close>

fun cards_of :: "plan option list \<Rightarrow> plan list" where
  "cards_of [] = []"
| "cards_of (None # ps) = []"
| "cards_of (Some p # ps) = p # cards_of ps"

fun last_settled_plans :: "plan option list option \<Rightarrow> event list \<Rightarrow> plan option list option" where
  "last_settled_plans cur [] = cur"
| "last_settled_plans cur (Settle i (Inr ps) # evs) =
     last_settled_plans (if None \<in> set ps then cur else Some ps) evs"
| "last_settled_plans cur (e # evs) = last_settled_plans cur evs"

fun cards_after :: "plan list \<Rightarrow> event list \<Rightarrow> plan list" where
  "cards_after cur [] = cur"
| "cards_after cur (Trigger i s t # evs) = cards_after (if starts_load s t then [] else cur) evs"
| "cards_after cur (Settle i (Inr ps) # evs) = cards_after (cur @ cards_of ps) evs"
| "cards_after cur (Settle i (Inl m) # evs) = cards_after cur evs"

text \<open>Sample data: a week in which every day has the same plan.\<close>

definition week_of :: "plan \<Rightarrow> plan option list" where
  "week_of p = [Some p, Some p, Some p, Some p, Some p, Some p, Some p]"

definition groceries :: "string \<Rightarrow> plan" where
  "groceries item = \<lparr>meals = None, grocery_list = Some [Some item]\<rparr>"


section \<open>Unit conversion (\<open>Unit\<close>, \<open>ui/app.js\<close> and \<open>ui/profile.js\<close>)\<close>

text \<open>
  The values that reach and leave the \<open>Unit\<close> functions: \<open>undefined\<close>, \<open>null\<close>,
  \<open>NaN\<close>, a finite number, and the empty string that \<open>round1\<close> of \<open>ui/profile.js\<close>
  returns.  Arithmetic on finite numbers is that of the reals (the rounding of
  the floating-point operations is not modelled).
\<close>

datatype jsval = Undefined | Null | NaN | Num real | EmptyStr

text \<open>
  \<open>ToNumber\<close>, the conversion applied by the arithmetic operators and \<open>Math.round\<close>.
  (With the empty string as operand \<open>+\<close> concatenates instead; the multiplication
  that follows it in \<open>round1\<close> converts the text back to the same number.)
\<close>

fun to_number :: "jsval \<Rightarrow> real option" where
  "to_number Undefined = None"
| "to_number Null = Some 0"
| "to_number NaN = None"
| "to_number (Num x) = Some x"
| "to_number EmptyStr = Some 0"

definition arith :: "(real \<Rightarrow> real \<Rightarrow> real) \<Rightarrow> jsval \<Rightarrow> jsval \<Rightarrow> jsval" where
  "arith f a b =
     (case to_number a of
        None \<Rightarrow> NaN
      | Some x \<Rightarrow> (case to_number b of None \<Rightarrow> NaN | Some y \<Rightarrow> Num (f x y)))"

definition Math_round :: "jsval \<Rightarrow> jsval" where
  "Math_round a = (case to_number a of None \<Rightarrow> NaN | Some x \<Rightarrow> Num (of_int \<lfloor>x + 1 / 2\<rfloor>))"

text \<open>\<open>x != null\<close> is false exactly for \<open>null\<close> and \<open>undefined\<close>; \<open>isNaN(x)\<close> converts first.\<close>

definition is_nullish :: "jsval \<Rightarrow> bool" where
  "is_nullish a \<longleftrightarrow> a = Null \<or> a = Undefined"

definition isNaN :: "jsval \<Rightarrow> bool" where
  "isNaN a \<longleftrightarrow> to_number a = None"

definition EPSILON :: real where
  "EPSILON = 1 / 2 ^ 52"

definition LB_PER_KG :: real where
  "LB_PER_KG = 22046226218 / 10000000000"

definition CM_PER_IN :: real where
  "CM_PER_IN = 254 / 100"

text \<open>The object \<open>Unit\<close> of \<open>ui/app.js\<close>.\<close>

definition kgToLb :: "jsval \<Rightarrow> jsval" where
  "kgToLb kg = (if \<not> is_nullish kg then arith (*) kg (Num LB_PER_KG) else Null)"

definition lbToKg :: "jsval \<Rightarrow> jsval" where
  "lbToKg lb = (if \<not> is_nullish lb then arith (/) lb (Num LB_PER_KG) else Null)"

definition cmToIn :: "jsval \<Rightarrow> jsval" where
  "cmToIn cm = (if \<not> is_nullish cm then arith (/) cm (Num CM_PER_IN) else Null)"

definition inToCm :: "jsval \<Rightarrow> jsval" where
  "inToCm inch = (if \<not> is_nullish inch then arith (*) inch (Num CM_PER_IN) else Null)"

definition round1 :: "jsval \<Rightarrow> jsval" where
  "round1 n = arith (/) (Math_round (arith (*) (arith (+) n (Num EPSILON)) (Num 10))) (Num 10)"

definition round0 :: "jsval \<Rightarrow> jsval" where
  "round0 n = Math_round n"

text \<open>The object \<open>Unit\<close> of \<open>ui/profile.js\<close>.\<close>

definition profile_kgToLb :: "jsval \<Rightarrow> jsval" where
  "profile_kgToLb kg = (if is_nullish kg \<or> isNaN kg then Null else arith (*) kg (Num LB_PER_KG))"

definition profile_lbToKg :: "jsval \<Rightarrow> jsval" where
  "profile_lbToKg lb = (if is_nullish lb \<or> isNaN lb then Null else arith (/) lb (Num LB_PER_KG))"

definition profile_cmToIn :: "jsval \<Rightarrow> jsval" where
  "profile_cmToIn cm = (if is_nullish cm \<or> isNaN cm then Null else arith (/) cm (Num CM_PER_IN))"

definition profile_inToCm :: "jsval \<Rightarrow> jsval" where
  "profile_inToCm inch = (if is_nullish inch \<or> isNaN inch then Null else arith (*) inch (Num CM_PER_IN))"

definition profile_round1 :: "jsval \<Rightarrow> jsval" where
  "profile_round1 n =
     (if is_nullish n \<or> isNaN n then EmptyStr
      else arith (/) (Math_round (arith (*) n (Num 10))) (Num 10))"

text \<open>
  An explicit no-value result in the sense of the specification: \<open>null\<close> or the
  empty string; and the inputs it speaks of: missing (\<open>undefined\<close>, \<open>null\<close>) or
  not a number.
\<close>

definition no_value :: "jsval \<Rightarrow> bool" where
  "no_value r \<longleftrightarrow> r = Null \<or> r = EmptyStr"

definition missing_or_non_numeric :: "jsval \<Rightarrow> bool" where
  "missing_or_non_numeric a \<longleftrightarrow> a = Undefined \<or> a = Null \<or> a = NaN"


section \<open>Properties of the string functions\<close>

lemma starts_with_iff: "starts_with p s \<longleftrightarrow> (\<exists>b. s = p @ b)"
  by (induction p s rule: starts_with.induct) auto

lemma includes_str_iff: "includes_str s p \<longleftrightarrow> (\<exists>a b. s = a @ p @ b)"
proof (induction s)
  case Nil
  then show ?case by simp
next
  case (Cons c cs)
  show ?case
  proof
    assume "includes_str (c # cs) p"
    then consider "starts_with p (c # cs)" | "includes_str cs p" by auto
    then show "\<exists>a b. c # cs = a @ p @ b"
    proof cases
      case 1
      then obtain b where "c # cs = p @ b" by (auto simp: starts_with_iff)
      then have "c # cs = [] @ p @ b" by simp
      then show ?thesis by blast
    next
      case 2
      with Cons.IH obtain a b where "cs = a @ p @ b" by blast
      then have "c # cs = (c # a) @ p @ b" by simp
      then show ?thesis by blast
    qed
  next
    assume "\<exists>a b. c # cs = a @ p @ b"
    then obtain a b where ab: "c # cs = a @ p @ b" by blast
    show "includes_str (c # cs) p"
    proof (cases a)
      case Nil
      with ab have "starts_with p (c # cs)" by (auto simp: starts_with_iff)
      then show ?thesis by simp
    next
      case (Cons x a')
      with ab have "cs = a' @ p @ b" by simp
      with Cons.IH have "includes_str cs p" by blast
      then show ?thesis by simp
    qed
  qed
qed

lemma last_dropWhile_nonempty: "dropWhile P xs \<noteq> [] \<Longrightarrow> last (dropWhile P xs) = last xs"
  by (metis last_appendR takeWhile_dropWhile_id)

lemma trim_no_outer_space:
  assumes "trim s \<noteq> []"
  shows "\<not> is_ws (hd (trim s)) \<and> \<not> is_ws (last (trim s))"
proof -
  let ?d = "dropWhile is_ws s"
  let ?e = "dropWhile is_ws (rev ?d)"
  from assms have e: "?e \<noteq> []" by (simp add: trim_def)
  have d: "?d \<noteq> []"
  proof
    assume "?d = []"
    then have "?e = []" by (simp only: rev.simps dropWhile.simps)
    with e show False by (simp only: not_True_eq_False)
  qed
  have "last (trim s) = hd ?e"
    using e by (simp add: trim_def last_rev)
  moreover have "\<not> is_ws (hd ?e)"
    using e by (rule hd_dropWhile)
  moreover have "hd (trim s) = last ?e"
    using e by (simp add: trim_def hd_rev)
  moreover have "last ?e = hd ?d"
    using e d by (simp add: last_dropWhile_nonempty last_rev)
  moreover have "\<not> is_ws (hd ?d)"
    using d by (rule hd_dropWhile)
  ultimately show ?thesis by simp
qed

lemma trim_decomposition:
  "\<exists>a b. s = a @ trim s @ b \<and> (\<forall>c \<in> set a. is_ws c) \<and> (\<forall>c \<in> set b. is_ws c)"
proof -
  let ?a = "takeWhile is_ws s"
  let ?d = "dropWhile is_ws s"
  let ?t = "takeWhile is_ws (rev ?d)"
  have "rev (?t @ dropWhile is_ws (rev ?d)) = rev (dropWhile is_ws (rev ?d)) @ rev ?t"
    by (rule rev_append)
  then have "rev (rev ?d) = rev (dropWhile is_ws (rev ?d)) @ rev ?t"
    by (simp only: takeWhile_dropWhile_id)
  then have "?d = trim s @ rev ?t"
    by (simp only: rev_rev_ident trim_def)
  moreover have "s = ?a @ ?d" by simp
  ultimately have "s = ?a @ trim s @ rev ?t" by simp
  moreover have "\<forall>c \<in> set ?a. is_ws c" by (auto dest: set_takeWhileD)
  moreover have "\<forall>c \<in> set (rev ?t). is_ws c" by (auto dest: set_takeWhileD)
  ultimately show ?thesis by blast
qed

text \<open>The digits that \<open>show_nat\<close> produces denote the number.\<close>

lemma digit_char_value: "d < 10 \<Longrightarrow> of_char (digit_char d) = 48 + d"
proof -
  assume "d < 10"
  then have "d \<in> {0, 1, 2, 3, 4, 5, 6, 7, 8, 9}" by auto
  then show ?thesis by (auto simp: digit_char_def)
qed

lemma show_nat_value:
  "foldl (\<lambda>acc c. 10 * acc + (of_char c - 48)) 0 (show_nat n) = n"
proof (induction n rule: show_nat.induct)
  case (1 n)
  show ?case
  proof (cases "n < 10")
    case True
    then show ?thesis by (simp add: show_nat.simps [of n] digit_char_value)
  next
    case False
    have "n mod 10 < 10" by simp
    with False "1.IH" show ?thesis
      by (simp add: show_nat.simps [of n] digit_char_value)
  qed
qed


section \<open>Properties of the insertion-ordered map\<close>

lemma map_of_map_set: "map_of (map_set k v m) = (map_of m)(k \<mapsto> v)"
  by (induction m) (auto simp: fun_eq_iff)

lemma keys_map_set:
  "map fst (map_set k v m) = (if k \<in> fst ` set m then map fst m else map fst m @ [k])"
  by (induction m) force+

lemma assoc_list_by_keys:
  assumes "distinct (map fst r)"
  shows "r = map (\<lambda>k. (k, the (map_of r k))) (map fst r)"
proof -
  have "map (\<lambda>x. (fst x, the (map_of r (fst x)))) r = r"
  proof (rule map_idI)
    fix x assume "x \<in> set r"
    then have "map_of r (fst x) = Some (snd x)"
      using assms map_of_is_SomeI [of r "fst x" "snd x"] by simp
    then show "(fst x, the (map_of r (fst x))) = x" by simp
  qed
  then show ?thesis by (simp add: comp_def)
qed

lemma distinct_first_seen_from:
  "distinct seen \<Longrightarrow> distinct (seen @ first_seen_from seen ks)"
proof (induction ks arbitrary: seen)
  case Nil
  then show ?case by simp
next
  case (Cons k ks)
  show ?case
  proof (cases "k \<in> set seen")
    case True
    with Cons show ?thesis by simp
  next
    case False
    with Cons.prems have "distinct (seen @ [k])" by simp
    from Cons.IH [OF this] False show ?thesis by simp
  qed
qed

lemma set_first_seen_from: "set (first_seen_from seen ks) = set ks - set seen"
  by (induction ks arbitrary: seen) auto

lemma distinct_first_seen: "distinct (first_seen ks)"
  using distinct_first_seen_from [of "[]" ks] by (simp add: first_seen_def)

lemma set_first_seen: "set (first_seen ks) = set ks"
  by (simp add: first_seen_def set_first_seen_from)

text \<open>First-seen order is the order of the first occurrences.\<close>

lemma remdups_snoc: "remdups (xs @ [k]) = filter (\<lambda>x. x \<noteq> k) (remdups xs) @ [k]"
  by (induction xs) auto

lemma first_seen_from_remdups:
  "first_seen_from seen ks = rev (remdups (rev (filter (\<lambda>k. k \<notin> set seen) ks)))"
proof (induction ks arbitrary: seen)
  case Nil
  then show ?case by simp
next
  case (Cons k ks)
  show ?case
  proof (cases "k \<in> set seen")
    case True
    then show ?thesis by (simp add: Cons.IH)
  next
    case False
    have "filter (\<lambda>x. x \<noteq> k) (remdups (rev (filter (\<lambda>x. x \<notin> set seen) ks)))
          = remdups (rev (filter (\<lambda>x. x \<notin> set (seen @ [k])) ks))"
      by (simp add: remdups_filter [symmetric] rev_filter [symmetric] conj_commute)
    with False show ?thesis
      by (simp add: Cons.IH remdups_snoc)
  qed
qed

lemma first_seen_remdups: "first_seen ks = rev (remdups (rev ks))"
  by (simp add: first_seen_def first_seen_from_remdups)


section \<open>Grocery aggregation\<close>

lemma count_raws_fold: "count_raws m raws = fold (\<lambda>k m. bump m k) (kept raws) m"
  by (induction raws arbitrary: m) (simp_all add: kept_def Let_def)

lemma get_or0_bump: "get_or0 (bump m k) k' = get_or0 m k' + (if k' = k then 1 else 0)"
  by (simp add: get_or0_def bump_def map_get_def map_of_map_set)

lemma keys_bump:
  "map fst (bump m k) = (if k \<in> set (map fst m) then map fst m else map fst m @ [k])"
  by (simp add: bump_def keys_map_set)

lemma keys_fold_bump:
  "map fst (fold (\<lambda>k m. bump m k) ks m) = map fst m @ first_seen_from (map fst m) ks"
  by (induction ks arbitrary: m) (simp_all add: keys_bump)

lemma get_or0_fold_bump:
  "get_or0 (fold (\<lambda>k m. bump m k) ks m) k = get_or0 m k + count_list ks k"
  by (induction ks arbitrary: m) (simp_all add: get_or0_bump)

lemma fold_bump_from_empty:
  "fold (\<lambda>k m. bump m k) ks [] = map (\<lambda>k. (k, count_list ks k)) (first_seen ks)"
proof -
  let ?r = "fold (\<lambda>k m. bump m k) ks []"
  have keys: "map fst ?r = first_seen ks"
    using keys_fold_bump [of ks "[]"] by (simp add: first_seen_def)
  have d: "distinct (map fst ?r)"
    by (simp add: keys distinct_first_seen)
  have v: "the (map_of ?r k) = count_list ks k" if "k \<in> set (first_seen ks)" for k
  proof -
    from that keys have "k \<in> fst ` set ?r" by (metis set_map)
    then obtain n where n: "map_of ?r k = Some n"
      by (metis domD dom_map_of_conv_image_fst)
    then have "get_or0 ?r k = n" by (simp add: get_or0_def map_get_def)
    moreover have "get_or0 ?r k = count_list ks k"
      using get_or0_fold_bump [of ks "[]" k] by (simp add: get_or0_def map_get_def)
    ultimately show ?thesis using n by simp
  qed
  have "?r = map (\<lambda>k. (k, the (map_of ?r k))) (map fst ?r)"
    by (rule assoc_list_by_keys [OF d])
  also have "\<dots> = map (\<lambda>k. (k, the (map_of ?r k))) (first_seen ks)"
    by (simp only: keys)
  also have "\<dots> = map (\<lambda>k. (k, count_list ks k)) (first_seen ks)"
    by (rule map_cong) (simp_all add: v)
  finally show ?thesis .
qed

lemma count_raws_tally: "count_raws [] raws = tally raws"
  by (simp add: count_raws_fold fold_bump_from_empty tally_def)

lemma count_raws_append: "count_raws m (xs @ ys) = count_raws (count_raws m xs) ys"
  by (induction xs arbitrary: m) (simp_all add: Let_def)

lemma count_meals_stream: "count_meals m ms = count_raws m (meal_stream ms)"
  by (induction ms arbitrary: m) (simp_all add: meal_stream_def count_raws_append split: option.split)

lemma count_plans_stream: "count_plans m ps = count_raws m (ingredient_stream ps)"
  by (induction ps arbitrary: m)
     (simp_all add: ingredient_stream_def count_raws_append count_meals_stream)

lemma count_grocery_lists_stream: "count_grocery_lists m ps = count_raws m (grocery_stream ps)"
  by (induction ps arbitrary: m) (simp_all add: grocery_stream_def count_raws_append)

lemma kept_nonempty: "k \<in> set (kept raws) \<Longrightarrow> k \<noteq> []"
  by (simp add: kept_def)

lemma tally_entries:
  assumes "(k, v) \<in> set (tally raws)"
  shows "k \<noteq> [] \<and> 1 \<le> v \<and> v = count_list (kept raws) k"
proof -
  from assms have k: "k \<in> set (kept raws)" and v: "v = count_list (kept raws) k"
    by (auto simp: tally_def set_first_seen)
  from k have "count_list (kept raws) k \<noteq> 0"
    by (simp add: count_list_0_iff)
  with k v show ?thesis by (simp add: kept_nonempty)
qed

text \<open>
  C1.  Both aggregation loops trim every string they meet, drop the strings that
  trim to empty and count the remaining ones case-sensitively: the result lists
  the distinct kept strings in first-seen order, each with its number of
  occurrences among the kept strings.  Every key of the result is non-empty and
  every count is at least 1.  The strings \<open>Eggs\<close>, \<open>eggs \<close>, \<open>Eggs\<close>, \<open>Milk\<close> give
  \<open>Eggs: 2\<close>, \<open>eggs: 1\<close>, \<open>Milk: 1\<close> in this order.
\<close>

theorem grocery_aggregation_counts:
  "aggregateIngredients (Some ps) =
     map (\<lambda>k. (k, count_list (kept (ingredient_stream ps)) k)) (first_seen (kept (ingredient_stream ps)))
   \<and> combinedGrocery (Some ps) =
     map (\<lambda>k. (k, count_list (kept (grocery_stream ps)) k)) (first_seen (kept (grocery_stream ps)))
   \<and> (\<forall>(k, v) \<in> set (aggregateIngredients (Some ps)) \<union> set (combinedGrocery (Some ps)).
         k \<noteq> [] \<and> 1 \<le> v)
   \<and> aggregateIngredients
         (Some [\<lparr>meals = Some [\<lparr>ingredients =
                    Some [Some ''Eggs'', Some ''eggs '', Some ''Eggs'', Some ''Milk'']\<rparr>],
                 grocery_list = None\<rparr>])
       = [(''Eggs'', 2), (''eggs'', 1), (''Milk'', 1)]
   \<and> combinedGrocery
         (Some [\<lparr>meals = None,
                 grocery_list = Some [Some ''Eggs'', Some ''eggs '', Some ''Eggs'', Some ''Milk'']\<rparr>])
       = [(''Eggs'', 2), (''eggs'', 1), (''Milk'', 1)]"
proof -
  have a: "aggregateIngredients (Some ps) = tally (ingredient_stream ps)"
    by (simp add: aggregateIngredients_def count_plans_stream count_raws_tally)
  have c: "combinedGrocery (Some ps) = tally (grocery_stream ps)"
    by (simp add: combinedGrocery_def count_grocery_lists_stream count_raws_tally)
  have e: "\<forall>(k, v) \<in> set (tally raws). k \<noteq> [] \<and> 1 \<le> v" for raws
    using tally_entries [of _ _ raws] by auto
  have x1: "aggregateIngredients
         (Some [\<lparr>meals = Some [\<lparr>ingredients =
                    Some [Some ''Eggs'', Some ''eggs '', Some ''Eggs'', Some ''Milk'']\<rparr>],
                 grocery_list = None\<rparr>])
       = [(''Eggs'', 2), (''eggs'', 1), (''Milk'', 1)]"
    by (simp add: aggregateIngredients_def bump_def get_or0_def map_get_def trim_def
          is_ws_def or_empty_def)
  have x2: "combinedGrocery
         (Some [\<lparr>meals = None,
                 grocery_list = Some [Some ''Eggs'', Some ''eggs '', Some ''Eggs'', Some ''Milk'']\<rparr>])
       = [(''Eggs'', 2), (''eggs'', 1), (''Milk'', 1)]"
    by (simp add: combinedGrocery_def bump_def get_or0_def map_get_def trim_def
          is_ws_def or_empty_def)
  from e [of "ingredient_stream ps"] e [of "grocery_stream ps"]
  have "\<forall>(k, v) \<in> set (aggregateIngredients (Some ps)) \<union> set (combinedGrocery (Some ps)).
         k \<noteq> [] \<and> 1 \<le> v"
    unfolding a c by blast
  with a c x1 x2 show ?thesis
    unfolding tally_def by blast
qed

theorem grocery_aggregation_counts_witness:
  "(''eggs'', 1) \<in> set (aggregateIngredients
         (Some [\<lparr>meals = Some [\<lparr>ingredients =
                    Some [Some ''Eggs'', Some ''eggs '', Some ''Eggs'', Some ''Milk'']\<rparr>],
                 grocery_list = None\<rparr>]))
   \<and> ''eggs'' \<noteq> [] \<and> (1::nat) \<le> 1"
proof -
  let ?ps = "[\<lparr>meals = Some [\<lparr>ingredients =
                    Some [Some ''Eggs'', Some ''eggs '', Some ''Eggs'', Some ''Milk'']\<rparr>],
                 grocery_list = None\<rparr>]"
  note t = grocery_aggregation_counts [of ?ps]
  from t have e: "aggregateIngredients (Some ?ps) = [(''Eggs'', 2), (''eggs'', 1), (''Milk'', 1)]"
    by blast
  from t have "\<forall>(k, v) \<in> set (aggregateIngredients (Some ?ps)). k \<noteq> [] \<and> 1 \<le> v"
    by blast
  then show ?thesis unfolding e by simp
qed

text \<open>
  C2 as stated fails: a record that has both a \<open>grocery_list\<close> and meals is
  aggregated by \<open>aggregateIngredients\<close> from its meals, and a record without a
  \<open>grocery_list\<close> contributes nothing to \<open>buildCombinedGrocery\<close>.
\<close>

theorem grocery_source_selection_counterexample:
  "aggregateIngredients
     (Some [\<lparr>meals = Some [\<lparr>ingredients = Some [Some ''Milk'']\<rparr>],
             grocery_list = Some [Some ''Eggs'']\<rparr>])
     = [(''Milk'', 1)]
   \<and> count_raws []
       (spec_stream [\<lparr>meals = Some [\<lparr>ingredients = Some [Some ''Milk'']\<rparr>],
                      grocery_list = Some [Some ''Eggs'']\<rparr>])
     = [(''Eggs'', 1)]
   \<and> combinedGrocery
       (Some [\<lparr>meals = Some [\<lparr>ingredients = Some [Some ''Milk'']\<rparr>], grocery_list = None\<rparr>])
     = []
   \<and> count_raws []
       (spec_stream [\<lparr>meals = Some [\<lparr>ingredients = Some [Some ''Milk'']\<rparr>], grocery_list = None\<rparr>])
     = [(''Milk'', 1)]"
  by (simp add: aggregateIngredients_def combinedGrocery_def spec_stream_def spec_select_def
        meal_stream_def bump_def get_or0_def map_get_def trim_def is_ws_def or_empty_def)

text \<open>
  C2, amended.  \<open>aggregateIngredients\<close> (the week page) draws its strings from
  the per-meal ingredients of every record, in order, whether or not the record
  has a \<open>grocery_list\<close>; the aggregation of \<open>buildCombinedGrocery\<close> (the plan
  page) draws them from the \<open>grocery_list\<close> of every record and takes nothing
  from a record without one.  Each result is the trim-skip-count fold over the
  strings so selected.
\<close>

theorem grocery_source_selection:
  "aggregateIngredients (Some ps) = count_raws [] (ingredient_stream ps)
   \<and> combinedGrocery (Some ps) = count_raws [] (grocery_stream ps)
   \<and> aggregateIngredients None = [] \<and> combinedGrocery None = []"
  by (simp add: aggregateIngredients_def combinedGrocery_def count_plans_stream
        count_grocery_lists_stream ingredient_stream_def grocery_stream_def)


section \<open>Grocery export\<close>

lemma txt_lines_map: "txt_lines acc m = acc @ map (\<lambda>(k, v). txt_line k v) m"
  by (induction m arbitrary: acc) auto

lemma csv_lines_map: "csv_lines acc m = acc @ map (\<lambda>(k, v). csv_line k v) m"
  by (induction m arbitrary: acc) auto

lemma double_quotes_concat:
  "double_quotes k = concat (map (\<lambda>c. if c = CHR 0x22 then [c, c] else [c]) k)"
  by (induction k) (simp_all add: dq_def)

lemma aggregate_counts_pos: "(k, v) \<in> set (aggregateIngredients plans) \<Longrightarrow> 1 \<le> v"
  by (cases plans)
     (auto simp: aggregateIngredients_def count_plans_stream count_raws_tally dest: tally_entries)

lemma combined_counts_pos: "(k, v) \<in> set (combinedGrocery plans) \<Longrightarrow> 1 \<le> v"
  by (cases plans)
     (auto simp: combinedGrocery_def count_grocery_lists_stream count_raws_tally dest: tally_entries)

lemma show_nat_digits: "set (show_nat n) \<subseteq> set ''0123456789''"
proof (induction n rule: show_nat.induct)
  case (1 n)
  have d: "digit_char k \<in> set ''0123456789''" if "k < 10" for k
  proof -
    from that have "k \<in> {0, 1, 2, 3, 4, 5, 6, 7, 8, 9}" by auto
    then show ?thesis by (auto simp: digit_char_def)
  qed
  show ?case
  proof (cases "n < 10")
    case True
    then show ?thesis using d [of n] by (simp add: show_nat.simps [of n])
  next
    case False
    moreover have "n mod 10 < 10" by simp
    ultimately show ?thesis
      using "1.IH" d [of "n mod 10"] by (simp add: show_nat.simps [of n])
  qed
qed

lemma toText_spec:
  assumes "\<forall>(k, v) \<in> set m. 1 \<le> v"
  shows "toText m = join nl (map spec_txt_line m)"
proof -
  have eq: "map (\<lambda>(k, v). txt_line k v) m = map spec_txt_line m"
  proof (rule map_cong)
    fix x assume "x \<in> set m"
    with assms have "1 \<le> snd x" by (cases x) auto
    then show "(case x of (k, v) \<Rightarrow> txt_line k v) = spec_txt_line x"
      by (cases x) (auto simp: txt_line_def spec_txt_line_def)
  qed simp
  show ?thesis by (simp add: toText_def txt_lines_map eq)
qed

lemma toCsv_spec: "toCsv m = join nl (''item,count'' # map spec_csv_row m)"
proof -
  have eq: "map (\<lambda>(k, v). csv_line k v) m = map spec_csv_row m"
    by (rule map_cong) (auto simp: csv_line_def spec_csv_row_def double_quotes_concat)
  show ?thesis by (simp add: toCsv_def csv_lines_map eq)
qed

text \<open>
  C5.  For a grocery list whose counts are all at least 1 (every aggregated list
  is one), the text export has one line per item, in the order of the list: the
  line is \<open>- item\<close> for a count of 1 and \<open>- item  xN\<close> (two spaces before the \<open>x\<close>)
  for a larger count \<open>N\<close>; the lines are joined by one newline.  This is the text
  that \<open>exportTxt\<close> downloads as \<open>grocery-week.txt\<close> and that
  \<open>buildCombinedGrocery\<close> returns for every format other than \<open>csv\<close>.  The list
  \<open>Eggs: 2, Milk: 1\<close> gives \<open>- Eggs  x2\<close>, newline, \<open>- Milk\<close>.
\<close>

theorem text_export_format:
  assumes "\<forall>(k, v) \<in> set m. 1 \<le> v"
  shows "toText m = join nl (map spec_txt_line m)
    \<and> length (txt_lines [] m) = length m
    \<and> exportTxt plans = (''grocery-week.txt'', join nl (map spec_txt_line (aggregateIngredients plans)))
    \<and> (format \<noteq> ''csv'' \<longrightarrow>
          buildCombinedGrocery format plans = join nl (map spec_txt_line (combinedGrocery plans)))
    \<and> toText [(''Eggs'', 2), (''Milk'', 1)] = ''- Eggs  x2'' @ [CHR 0x0A] @ ''- Milk''"
proof -
  have 1: "toText m = join nl (map spec_txt_line m)"
    by (rule toText_spec [OF assms])
  have 2: "length (txt_lines [] m) = length m"
    by (simp add: txt_lines_map)
  have 3: "exportTxt plans = (''grocery-week.txt'', join nl (map spec_txt_line (aggregateIngredients plans)))"
    using toText_spec [of "aggregateIngredients plans"] aggregate_counts_pos [of _ _ plans]
    by (auto simp: exportTxt_def download_def)
  have 4: "format \<noteq> ''csv'' \<longrightarrow>
          buildCombinedGrocery format plans = join nl (map spec_txt_line (combinedGrocery plans))"
    using toText_spec [of "combinedGrocery plans"] combined_counts_pos [of _ _ plans]
    by (auto simp: buildCombinedGrocery_def)
  have 5: "toText [(''Eggs'', 2), (''Milk'', 1)] = ''- Eggs  x2'' @ [CHR 0x0A] @ ''- Milk''"
    by (simp add: toText_def txt_line_def show_nat.simps digit_char_def nl_def)
  from 1 2 3 4 5 show ?thesis by blast
qed

theorem text_export_format_witness:
  "(1::nat) \<le> 2 \<and> (1::nat) \<le> 1
   \<and> toText [(''Eggs'', 2), (''Milk'', 1)] = join nl [''- Eggs  x2'', ''- Milk'']
   \<and> buildCombinedGrocery ''txt''
         (Some [\<lparr>meals = None, grocery_list = Some [Some ''Eggs'', Some ''Milk'', Some ''Eggs'']\<rparr>])
       = ''- Eggs  x2'' @ nl @ ''- Milk''"
proof -
  let ?ps = "Some [\<lparr>meals = None, grocery_list = Some [Some ''Eggs'', Some ''Milk'', Some ''Eggs'']\<rparr>]"
  let ?m = "[(''Eggs'', 2::nat), (''Milk'', 1)]"
  have h: "\<forall>(k, v) \<in> set ?m. 1 \<le> v" by simp
  have c: "combinedGrocery ?ps = ?m"
    by (simp add: combinedGrocery_def bump_def get_or0_def map_get_def trim_def is_ws_def or_empty_def)
  note t = text_export_format [OF h, of ?ps "''txt''"]
  from t have a: "toText ?m = join nl (map spec_txt_line ?m)"
    by blast
  from t have b: "buildCombinedGrocery ''txt'' ?ps = join nl (map spec_txt_line (combinedGrocery ?ps))"
    by simp
  from h a b show ?thesis
    unfolding c by (simp add: spec_txt_line_def show_nat.simps digit_char_def)
qed

text \<open>
  C6.  The CSV export is the header line \<open>item,count\<close> followed by one row per
  item in the order of the list, the lines joined by one newline.  A row is the
  item between double quotes, every double quote inside it doubled, then a comma
  and the count in decimal digits (the digits denote the count).  This is the text that \<open>exportCsv\<close> downloads
  as \<open>grocery-week.csv\<close> and that \<open>buildCombinedGrocery\<close> returns for the format
  \<open>csv\<close>.  The list with the single item \<open>Item "A"\<close> of count 1 gives
  \<open>item,count\<close>, newline, \<open>"Item ""A""",1\<close>.
\<close>

theorem csv_export_format:
  "toCsv m = join nl (''item,count'' # map spec_csv_row m)
   \<and> length (csv_lines [''item,count''] m) = Suc (length m)
   \<and> set (show_nat v) \<subseteq> set ''0123456789''
   \<and> foldl (\<lambda>acc c. 10 * acc + (of_char c - 48)) 0 (show_nat v) = v
   \<and> exportCsv plans = (''grocery-week.csv'', join nl (''item,count'' # map spec_csv_row (aggregateIngredients plans)))
   \<and> buildCombinedGrocery ''csv'' plans = join nl (''item,count'' # map spec_csv_row (combinedGrocery plans))
   \<and> toCsv [(''Item '' @ [CHR 0x22] @ ''A'' @ [CHR 0x22], 1)]
       = ''item,count'' @ [CHR 0x0A]
         @ [CHR 0x22] @ ''Item '' @ [CHR 0x22, CHR 0x22] @ ''A'' @ [CHR 0x22, CHR 0x22] @ [CHR 0x22] @ '',1''"
proof -
  have 6: "toCsv [(''Item '' @ [CHR 0x22] @ ''A'' @ [CHR 0x22], 1)]
       = ''item,count'' @ [CHR 0x0A]
         @ [CHR 0x22] @ ''Item '' @ [CHR 0x22, CHR 0x22] @ ''A'' @ [CHR 0x22, CHR 0x22] @ [CHR 0x22] @ '',1''"
    by (simp add: toCsv_def csv_line_def show_nat.simps digit_char_def nl_def dq_def)
  have 2: "length (csv_lines [''item,count''] m) = Suc (length m)"
    by (simp add: csv_lines_map)
  have 4: "exportCsv plans = (''grocery-week.csv'', join nl (''item,count'' # map spec_csv_row (aggregateIngredients plans)))"
    by (simp add: exportCsv_def download_def toCsv_spec)
  have 5: "buildCombinedGrocery ''csv'' plans = join nl (''item,count'' # map spec_csv_row (combinedGrocery plans))"
    by (simp add: buildCombinedGrocery_def toCsv_spec)
  show ?thesis
    by (intro conjI toCsv_spec 2 show_nat_digits show_nat_value 4 5 6)
qed


section \<open>Sport normalisation\<close>

lemma normalizeSport_label:
  "normalizeSport a = (case own_label a of Some l \<Rightarrow> Label l | None \<Rightarrow> sport_by_type a)"
  by (simp add: normalizeSport_def own_label_def or_str_def split: option.split)

lemma map_index_table: "\<forall>(k, v) \<in> set spec_sport_table. map_index k = Some (Label v)"
  by (simp add: spec_sport_table_def map_index_def sport_table_def)

lemma map_index_unmapped:
  "k \<notin> fst ` set spec_sport_table \<Longrightarrow> k \<notin> set object_prototype_members \<Longrightarrow> map_index k = None"
  by (simp add: spec_sport_table_def map_index_def sport_table_def)

lemma map_index_inherited:
  "\<forall>k \<in> set object_prototype_members. map_index k = Some (Inherited k)"
  by (simp add: map_index_def sport_table_def object_prototype_members_def)

lemma map_index_heuristic_types: "map_index [] = None" "map_index ''Workout'' = None"
  by (simp_all add: map_index_def sport_table_def object_prototype_members_def)

lemmas eval_strings =
  or_str_def or_empty_def or_zero_def trim_def is_ws_def toLowerCase_def lower_char_def
  upper_letters_def lower_letters_def virtual_name_def strength_name_def

text \<open>
  C3 as stated fails.  An untyped \<open>Workout\<close> of 5000 metres whose name has none of
  the keywords is classified \<open>Cycling\<close>, where the claim lets it default to
  \<open>Workout\<close>; and a record of type \<open>Ride\<close> that carries a sport label is given
  that label, where the claim gives the table value \<open>Cycling\<close>.
\<close>

theorem sport_normalisation_counterexample:
  "normalizeSport
     \<lparr>sport_label = None, sport = None, type = Some ''Workout'', name = Some ''Morning Ride'',
      distance_m = Some 5000, duration_sec = None, kcal = None, start_time = None, date = None\<rparr> = Label ''Cycling''
   \<and> spec_normalizeSport
     \<lparr>sport_label = None, sport = None, type = Some ''Workout'', name = Some ''Morning Ride'',
      distance_m = Some 5000, duration_sec = None, kcal = None, start_time = None, date = None\<rparr> = ''Workout''
   \<and> normalizeSport
     \<lparr>sport_label = None, sport = Some ''Gravel'', type = Some ''Ride'', name = None,
      distance_m = None, duration_sec = None, kcal = None, start_time = None, date = None\<rparr> = Label ''Gravel''
   \<and> spec_normalizeSport
     \<lparr>sport_label = None, sport = Some ''Gravel'', type = Some ''Ride'', name = None,
      distance_m = None, duration_sec = None, kcal = None, start_time = None, date = None\<rparr> = ''Cycling''"
  by (simp add: normalizeSport_def sport_by_type_def map_index_heuristic_types eval_strings
        spec_normalizeSport_def spec_sport_table_def)

text \<open>
  C3, amended.  An activity that carries a non-empty string in \<open>sport_label\<close>, or
  else in \<open>sport\<close>, is given that string.  Otherwise, with \<open>t\<close> the trimmed type:
  a mapped \<open>t\<close> gives the value of the table; an unmapped \<open>t\<close> that is neither empty
  nor \<open>Workout\<close> (nor the name of a member of \<open>Object.prototype\<close>) is passed
  through; and for an empty \<open>t\<close> or \<open>Workout\<close>, a distance above 1000 metres gives
  \<open>Cycling (Virtual)\<close> when the lower-cased name contains \<open>zwift\<close>, \<open>trainerroad\<close>
  or \<open>virtual\<close> and \<open>Cycling\<close> when it does not, while at a distance of at most
  1000 a name containing \<open>upper body\<close>, \<open>strength\<close> or \<open>core\<close> gives \<open>Strength\<close>
  and any other name \<open>Workout\<close>.  Type \<open>Ride\<close> gives \<open>Cycling\<close>; the empty type
  with distance 5000 and name \<open>Zwift Ride\<close> gives \<open>Cycling (Virtual)\<close>.
\<close>

theorem sport_normalisation:
  "(own_label a = Some l \<longrightarrow> normalizeSport a = Label l)
   \<and> (own_label a = None \<longrightarrow>
        (let t = trim (or_empty (type a));
             nm = toLowerCase (or_empty (name a));
             dist = or_zero (distance_m a)
         in (\<forall>v. (t, v) \<in> set spec_sport_table \<longrightarrow> normalizeSport a = Label v)
          \<and> (t \<notin> fst ` set spec_sport_table \<and> t \<notin> set object_prototype_members
                \<and> t \<noteq> [] \<and> t \<noteq> ''Workout'' \<longrightarrow> normalizeSport a = Label t)
          \<and> (t = [] \<or> t = ''Workout'' \<longrightarrow>
                normalizeSport a =
                  Label (if dist > 1000
                         then (if virtual_name nm then ''Cycling (Virtual)'' else ''Cycling'')
                         else (if strength_name nm then ''Strength'' else ''Workout'')))))
   \<and> normalizeSport
        \<lparr>sport_label = None, sport = None, type = Some ''Ride'', name = None,
         distance_m = None, duration_sec = None, kcal = None, start_time = None, date = None\<rparr> = Label ''Cycling''
   \<and> normalizeSport
        \<lparr>sport_label = None, sport = None, type = Some [], name = Some ''Zwift Ride'',
         distance_m = Some 5000, duration_sec = None, kcal = None, start_time = None, date = None\<rparr>
        = Label ''Cycling (Virtual)''"
proof -
  have 1: "own_label a = Some l \<longrightarrow> normalizeSport a = Label l"
    by (simp add: normalizeSport_label)
  have 2: "normalizeSport a = Label v"
    if "own_label a = None" "(trim (or_empty (type a)), v) \<in> set spec_sport_table" for v
    using that map_index_table by (auto simp: normalizeSport_label sport_by_type_def Let_def)
  have 3: "normalizeSport a = Label (trim (or_empty (type a)))"
    if "own_label a = None" "trim (or_empty (type a)) \<notin> fst ` set spec_sport_table"
       "trim (or_empty (type a)) \<notin> set object_prototype_members"
       "trim (or_empty (type a)) \<noteq> []" "trim (or_empty (type a)) \<noteq> ''Workout''"
    using that map_index_unmapped [of "trim (or_empty (type a))"]
    by (simp add: normalizeSport_label sport_by_type_def Let_def)
  have 4: "normalizeSport a =
             Label (if or_zero (distance_m a) > 1000
                    then (if virtual_name (toLowerCase (or_empty (name a)))
                          then ''Cycling (Virtual)'' else ''Cycling'')
                    else (if strength_name (toLowerCase (or_empty (name a)))
                          then ''Strength'' else ''Workout''))"
    if "own_label a = None"
       "trim (or_empty (type a)) = [] \<or> trim (or_empty (type a)) = ''Workout''"
    using that
    by (auto simp: normalizeSport_label sport_by_type_def Let_def map_index_heuristic_types
          virtual_name_def strength_name_def)
  have 5: "normalizeSport
        \<lparr>sport_label = None, sport = None, type = Some ''Ride'', name = None,
         distance_m = None, duration_sec = None, kcal = None, start_time = None, date = None\<rparr> = Label ''Cycling''"
    by (simp add: normalizeSport_def sport_by_type_def map_index_def sport_table_def eval_strings)
  have 6: "normalizeSport
        \<lparr>sport_label = None, sport = None, type = Some [], name = Some ''Zwift Ride'',
         distance_m = Some 5000, duration_sec = None, kcal = None, start_time = None, date = None\<rparr>
        = Label ''Cycling (Virtual)''"
    by (simp add: normalizeSport_def sport_by_type_def map_index_heuristic_types eval_strings)
  from 1 2 3 4 5 6 show ?thesis
    unfolding Let_def by blast
qed

theorem sport_normalisation_witness:
  "own_label \<lparr>sport_label = None, sport = Some [], type = Some '' Workout'', name = Some ''Core & Abs'',
         distance_m = Some 0, duration_sec = None, kcal = None, start_time = None, date = None\<rparr> = None
   \<and> trim (or_empty (Some '' Workout'')) = ''Workout''
   \<and> normalizeSport
        \<lparr>sport_label = None, sport = Some [], type = Some '' Workout'', name = Some ''Core & Abs'',
         distance_m = Some 0, duration_sec = None, kcal = None, start_time = None, date = None\<rparr> = Label ''Strength''"
proof -
  let ?a = "\<lparr>sport_label = None, sport = Some [], type = Some '' Workout'', name = Some ''Core & Abs'',
         distance_m = Some 0, duration_sec = None, kcal = None, start_time = None, date = None\<rparr>"
  have l: "own_label ?a = None"
    by (simp add: own_label_def)
  have t: "trim (or_empty (Some '' Workout'')) = ''Workout''"
    by (simp add: eval_strings)
  have s: "strength_name (toLowerCase (or_empty (Some ''Core & Abs'')))"
    by (simp add: eval_strings)
  from sport_normalisation [of ?a] l
  have "trim (or_empty (type ?a)) = [] \<or> trim (or_empty (type ?a)) = ''Workout'' \<longrightarrow>
        normalizeSport ?a =
          Label (if or_zero (distance_m ?a) > 1000
                 then (if virtual_name (toLowerCase (or_empty (name ?a))) then ''Cycling (Virtual)'' else ''Cycling'')
                 else (if strength_name (toLowerCase (or_empty (name ?a))) then ''Strength'' else ''Workout''))"
    unfolding Let_def by blast
  with l t s show ?thesis by (simp add: or_zero_def)
qed


section \<open>Day and sport aggregation\<close>


lemma actCount_loop:
  "actCount (agg_loop now f t st items) = actCount st + length (in_range now f t items)"
  by (induction items arbitrary: st) (simp_all add: in_range_def agg_step_def within_range_def Let_def)

lemma totalK_loop:
  "totalK (agg_loop now f t st items) = totalK st + sum_list (map act_kcal (in_range now f t items))"
  by (induction items arbitrary: st) (simp_all add: in_range_def agg_step_def within_range_def Let_def)


lemma set_map_set: "set (map_set k v m) \<subseteq> insert (k, v) (set m)"
  by (induction m) (auto split: if_splits)

lemma sum_map_set:
  fixes g :: "'v \<Rightarrow> int"
  shows "sum_list (map (\<lambda>e. g (snd e)) (map_set k v m)) =
         sum_list (map (\<lambda>e. g (snd e)) m) - (case map_of m k of None \<Rightarrow> 0 | Some old \<Rightarrow> g old) + g v"
  by (induction m) auto

lemma day_sum_step:
  "sum_list (map (\<lambda>e. training_kcal (snd e)) (daysMap (agg_step now f t st a))) =
   sum_list (map (\<lambda>e. training_kcal (snd e)) (daysMap st))
     + (if f \<le> act_date now a \<and> act_date now a \<le> t then act_kcal a else 0)"
  by (simp add: agg_step_def within_range_def Let_def sum_map_set map_get_def split: option.split)

lemma sport_sum_step:
  "sum_list (map (\<lambda>e. snd e) (sportMap (agg_step now f t st a))) =
   sum_list (map (\<lambda>e. snd e) (sportMap st))
     + (if f \<le> act_date now a \<and> act_date now a \<le> t then act_kcal a else 0)"
  using sum_map_set [of "\<lambda>x. x" "normalizeSport a" _ "sportMap st"]
  by (simp add: agg_step_def within_range_def Let_def map_get_def split: option.split)

lemma day_sum_loop:
  "sum_list (map (\<lambda>e. training_kcal (snd e)) (daysMap (agg_loop now f t st items))) =
   sum_list (map (\<lambda>e. training_kcal (snd e)) (daysMap st)) + sum_list (map act_kcal (in_range now f t items))"
  by (induction items arbitrary: st) (simp_all add: day_sum_step in_range_def)

lemma sport_sum_loop:
  "sum_list (map (\<lambda>e. snd e) (sportMap (agg_loop now f t st items))) =
   sum_list (map (\<lambda>e. snd e) (sportMap st)) + sum_list (map act_kcal (in_range now f t items))"
  by (induction items arbitrary: st) (simp_all add: sport_sum_step in_range_def)



lemma mset_insert_by: "mset (insert_by cmp x ys) = add_mset x (mset ys)"
  by (induction ys) simp_all

lemma mset_sort_by: "mset (sort_by cmp xs) = mset xs"
  by (induction xs) (simp_all add: sort_by_def mset_insert_by)





lemma math_round_numeral: "math_round (numeral k) = numeral k" "math_round 0 = 0"
  by (simp_all add: math_round_def floor_unique)

lemma math_round_example: "math_round (4101 / 10) = 410" "math_round (- 5 / 2) = - 2"
  by (simp_all add: math_round_def floor_unique)

lemmas eval_agg =
  aggregateClientSide_def agg_step_def within_range_def act_date_def act_kcal_def math_round_numeral
  normalizeSport_def or_str_def or_zero_def map_get_def sort_by_def day_cmp_def by_sport_add_def
  object_prototype_members_def Let_def

lemma numeric_total_lookup:
  "numeric_total obj = Some s \<Longrightarrow> map_of obj k = Some v \<Longrightarrow> \<exists>n. v = PNum n"
  by (induction obj arbitrary: s rule: numeric_total.induct) (auto split: if_splits)

lemma numeric_total_map_set:
  "numeric_total obj = Some s \<Longrightarrow>
   numeric_total (map_set k (PNum n) obj) =
     Some (s - (case map_of obj k of Some (PNum old) \<Rightarrow> old | _ \<Rightarrow> 0) + n)"
  by (induction obj arbitrary: s rule: numeric_total.induct) auto

lemma by_sport_add_numeric:
  assumes "numeric_total obj = Some s" and "prop_key sp \<notin> set object_prototype_members"
  shows "numeric_total (by_sport_add obj sp kc) = Some (s + kc)"
proof -
  let ?key = "prop_key sp"
  from assms(2) have np: "?key \<noteq> ''__proto__''"
    by (auto simp: object_prototype_members_def)
  show ?thesis
  proof (cases "map_of obj ?key")
    case None
    with assms np numeric_total_map_set [OF assms(1), of ?key kc] show ?thesis
      by (simp add: by_sport_add_def)
  next
    case (Some v)
    with numeric_total_lookup [OF assms(1)] obtain n where v: "v = PNum n" by blast
    with Some np numeric_total_map_set [OF assms(1), of ?key "n + kc"] show ?thesis
      by (simp add: by_sport_add_def)
  qed
qed

lemma member_text_not_member: "\<forall>k \<in> set object_prototype_members. member_text k \<notin> set object_prototype_members"
  by (simp add: object_prototype_members_def member_text_def)

lemma table_values_not_members: "\<forall>(k, v) \<in> set sport_table. v \<notin> set object_prototype_members"
  by (simp add: object_prototype_members_def sport_table_def)

lemma map_index_key: "map_index t = Some v \<Longrightarrow> prop_key v \<notin> set object_prototype_members"
proof (cases "map_of sport_table t")
  case None
  assume "map_index t = Some v"
  with None have "t \<in> set object_prototype_members" "v = Inherited t"
    by (auto simp: map_index_def split: if_splits)
  with member_text_not_member show ?thesis by simp
next
  case (Some w)
  assume "map_index t = Some v"
  with Some have "v = Label w" by (simp add: map_index_def)
  moreover from Some have "(t, w) \<in> set sport_table" by (rule map_of_SomeD)
  ultimately show ?thesis using table_values_not_members by auto
qed

lemma sport_by_type_key: "prop_key (sport_by_type a) \<notin> set object_prototype_members"
proof (cases "map_index (trim (or_empty (type a)))")
  case (Some v)
  then show ?thesis using map_index_key [OF Some] by (simp add: sport_by_type_def)
next
  case None
  then have "trim (or_empty (type a)) \<notin> set object_prototype_members"
    by (auto simp: map_index_def split: option.splits if_splits)
  with None show ?thesis
    by (auto simp: sport_by_type_def Let_def object_prototype_members_def)
qed

lemma normalizeSport_key:
  "prop_key (normalizeSport a) \<in> set object_prototype_members \<longleftrightarrow>
   (\<exists>l \<in> set object_prototype_members. own_label a = Some l)"
  using sport_by_type_key [of a]
  by (auto simp: normalizeSport_label split: option.split)

lemma by_sport_step:
  assumes "\<forall>(k, d) \<in> set (daysMap st). numeric_total (by_sport d) = Some (training_kcal d)"
    and "f \<le> act_date now a \<and> act_date now a \<le> t \<longrightarrow>
         prop_key (normalizeSport a) \<notin> set object_prototype_members"
  shows "\<forall>(k, d) \<in> set (daysMap (agg_step now f t st a)).
           numeric_total (by_sport d) = Some (training_kcal d)"
proof (cases "f \<le> act_date now a \<and> act_date now a \<le> t")
  case False
  with assms show ?thesis by (auto simp: agg_step_def within_range_def)
next
  case True
  let ?dt = "act_date now a"
  let ?d = "case map_get (daysMap st) ?dt of Some d0 \<Rightarrow> d0
            | None \<Rightarrow> \<lparr>day_date = ?dt, training_kcal = 0, planned_kcal = 0, by_sport = []\<rparr>"
  let ?d' = "?d\<lparr>training_kcal := training_kcal ?d + act_kcal a,
                   by_sport := by_sport_add (by_sport ?d) (normalizeSport a) (act_kcal a)\<rparr>"
  have "numeric_total (by_sport ?d) = Some (training_kcal ?d)"
    using assms(1) by (auto simp: map_get_def split: option.split dest: map_of_SomeD)
  from by_sport_add_numeric [OF this, of "normalizeSport a" "act_kcal a"] True assms(2)
  have d': "numeric_total (by_sport ?d') = Some (training_kcal ?d')" by simp
  have m: "daysMap (agg_step now f t st a) = map_set ?dt ?d' (daysMap st)"
    using True by (simp add: agg_step_def within_range_def Let_def)
  show ?thesis
  proof (clarify)
    fix k d assume "(k, d) \<in> set (daysMap (agg_step now f t st a))"
    with m set_map_set [of ?dt ?d' "daysMap st"]
    have "(k, d) = (?dt, ?d') \<or> (k, d) \<in> set (daysMap st)" by auto
    with d' assms(1) show "numeric_total (by_sport d) = Some (training_kcal d)" by auto
  qed
qed

lemma by_sport_loop:
  assumes "\<forall>(k, d) \<in> set (daysMap st). numeric_total (by_sport d) = Some (training_kcal d)"
    and "\<forall>a \<in> set (in_range now f t items). prop_key (normalizeSport a) \<notin> set object_prototype_members"
  shows "\<forall>(k, d) \<in> set (daysMap (agg_loop now f t st items)).
           numeric_total (by_sport d) = Some (training_kcal d)"
  using assms
proof (induction items arbitrary: st)
  case Nil
  then show ?case by simp
next
  case (Cons a items)
  from Cons.prems(2)
  have a: "f \<le> act_date now a \<and> act_date now a \<le> t \<longrightarrow>
         prop_key (normalizeSport a) \<notin> set object_prototype_members"
    and r: "\<forall>a \<in> set (in_range now f t items). prop_key (normalizeSport a) \<notin> set object_prototype_members"
    by (auto simp: in_range_def)
  from Cons.IH [OF by_sport_step [OF Cons.prems(1) a] r] show ?case by simp
qed

lemma sum_insert_by:
  fixes g :: "'a \<Rightarrow> int"
  shows "sum_list (map g (insert_by cmp x ys)) = g x + sum_list (map g ys)"
  by (induction ys) auto

lemma sum_sort_by:
  fixes g :: "'a \<Rightarrow> int"
  shows "sum_list (map g (sort_by cmp xs)) = sum_list (map g xs)"
  by (induction xs) (simp_all add: sort_by_def sum_insert_by)

lemma set_sort_by: "set (sort_by cmp xs) = set xs"
  using mset_sort_by [of cmp xs] by (metis set_mset_mset)











text \<open>
  The totals of \<open>aggregateClientSide\<close> agree with each other on every input: the
  total is the sum over the returned days and the sum over the sports, and the
  activity count is the number of activities in the range.
\<close>

lemma aggregate_totals_consistent:
  "total_training_kcal (aggregateClientSide now items f t)
     = sum_list (map training_kcal (days (aggregateClientSide now items f t)))
   \<and> total_training_kcal (aggregateClientSide now items f t)
     = sum_list (map snd (totals_by_sport (aggregateClientSide now items f t)))
   \<and> total_training_kcal (aggregateClientSide now items f t)
     = sum_list (map act_kcal (in_range now f t items))
   \<and> activity_count (aggregateClientSide now items f t) = length (in_range now f t items)"
  using day_sum_loop [of now f t "\<lparr>daysMap = [], sportMap = [], actCount = 0, totalK = 0\<rparr>" items]
    sport_sum_loop [of now f t "\<lparr>daysMap = [], sportMap = [], actCount = 0, totalK = 0\<rparr>" items]
  by (simp add: aggregateClientSide_def Let_def sum_sort_by totalK_loop actCount_loop comp_def)

text \<open>
  The breakdown of a day agrees with the day's total as long as no activity in the
  range carries a sport label that names a member of \<open>Object.prototype\<close>: then
  every value of \<open>by_sport\<close> is a number and their sum is \<open>training_kcal\<close>.
\<close>

lemma aggregate_by_sport_consistent:
  assumes "\<forall>a \<in> set (in_range now f t items). \<forall>l \<in> set object_prototype_members. own_label a \<noteq> Some l"
  shows "\<forall>d \<in> set (days (aggregateClientSide now items f t)).
           numeric_total (by_sport d) = Some (training_kcal d)"
proof -
  let ?st0 = "\<lparr>daysMap = [], sportMap = [], actCount = 0, totalK = 0\<rparr>"
  from assms
  have "\<forall>a \<in> set (in_range now f t items). prop_key (normalizeSport a) \<notin> set object_prototype_members"
    by (auto simp: normalizeSport_key)
  then have "\<forall>(k, d) \<in> set (daysMap (agg_loop now f t ?st0 items)).
               numeric_total (by_sport d) = Some (training_kcal d)"
    by (intro by_sport_loop) simp_all
  then show ?thesis
    by (auto simp: aggregateClientSide_def Let_def set_sort_by)
qed

text \<open>
  With the label \<open>constructor\<close> the value stored in \<open>by_sport\<close> is a text (the
  source text of \<open>Object\<close> followed by the digits of the kcal), not a number.
\<close>

lemma by_sport_constructor_key:
  "days (aggregateClientSide now [activity_on ''2024-01-01T07:00:00Z'' ''constructor'' 250]
             ''2024-01-01'' ''2024-01-31'')
     = [\<lparr>day_date = ''2024-01-01'', training_kcal = 250, planned_kcal = 0,
         by_sport = [(''constructor'', PText ''function Object() { [native code] }250'')]\<rparr>]
   \<and> numeric_total [(''constructor'', PText ''function Object() { [native code] }250'')] = None"
  by (simp add: activity_on_def eval_agg member_text_def show_int_def show_nat.simps digit_char_def)

text \<open>
  C10 at the input where the code departs from it: one activity of 250 kcal on
  2024-01-01 whose sport label is \<open>__proto__\<close>.  The day is returned with a
  \<open>training_kcal\<close> of 250 and an empty \<open>by_sport\<close>, whose values sum to 0, while the
  total and the per-sport total are both 250.
\<close>

theorem by_sport_inherited_key_evaluation:
  "aggregateClientSide now [activity_on ''2024-01-01T07:00:00Z'' ''__proto__'' 250]
       ''2024-01-01'' ''2024-01-31''
     = \<lparr>total_training_kcal = 250, total_planned_kcal = 0, activity_count = 1,
        totals_by_sport = [(Label ''__proto__'', 250)],
        days = [\<lparr>day_date = ''2024-01-01'', training_kcal = 250, planned_kcal = 0,
                  by_sport = []\<rparr>]\<rparr>
   \<and> numeric_total [] = Some 0"
  by (simp add: activity_on_def eval_agg)


section \<open>The HTTP client adapter\<close>









section \<open>The week loader\<close>

lemma weekDates_2024: "weekDates (Some 1704067200000) \<noteq> None"
  by (simp add: weekDates_def setUTCDate_plus_def MAX_TIME_def MS_PER_DAY_def)

lemma weekDates_invalid_date: "weekDates None = None" "datesOfWeek None = None"
  by (simp_all add: weekDates_def datesOfWeek_def setUTCDate_plus_def)

text \<open>
  The last time value is a valid start, \<open>+275760-09-13\<close>, but the day after it is not
  a date any more.
\<close>

lemma weekDates_end_of_time: "weekDates (Some 8640000000000000) = None"
  by (simp add: weekDates_def setUTCDate_plus_def MAX_TIME_def MS_PER_DAY_def)

lemma starts_load_weekDates: "starts_load s t \<longleftrightarrow> s \<noteq> [] \<and> weekDates t \<noteq> None"
  by (simp add: starts_load_def)

lemma starts_load_datesOfWeek: "starts_load s t \<longleftrightarrow> s \<noteq> [] \<and> datesOfWeek t \<noteq> None"
  by (simp add: starts_load_def weekDates_def datesOfWeek_def)

text \<open>
  The render loop appends the cards of the plans before the first \<open>null\<close> and
  throws exactly when there is a \<open>null\<close>.
\<close>

lemma render_all_eq:
  "render_all g ps =
     (g @ cards_of ps, if None \<in> set ps then Some null_date_message else None)"
proof (induction ps arbitrary: g)
  case Nil
  show ?case by simp
next
  case (Cons p ps)
  show ?case
  proof (cases p)
    case None
    then show ?thesis by (simp add: renderDayCard_def)
  next
    case (Some q)
    then show ?thesis by (simp add: renderDayCard_def Cons.IH)
  qed
qed

text \<open>
  A trigger whose dates cannot be formatted leaves the cards of the grid and the
  stored list as they are, in both loaders.
\<close>

lemma invalid_start_keeps_grid:
  assumes "weekDates t = None"
  shows "grid (loadWeek_begin s t u) = grid u"
    and "weekPlans (loadWeek_begin s t u) = weekPlans u"
  using assms by (simp_all add: loadWeek_begin_def Let_def)

lemma plan_invalid_start_keeps_grid:
  assumes "datesOfWeek t = None" and "s \<noteq> []"
  shows "plan_loadWeek_begin s t u = u\<lparr>w_status := Loading\<rparr>"
  using assms by (simp add: plan_loadWeek_begin_def Let_def)

text \<open>
  A settlement with a \<open>null\<close> in it leaves the cards before the \<open>null\<close> in the
  grid, shows the error and keeps the stored list of before.
\<close>

lemma null_plan_settlement:
  assumes "None \<in> set ps"
  shows "loadWeek_resume (Inr ps) u =
           u\<lparr>grid := grid u @ cards_of ps, alert_err := Some null_date_message\<rparr>"
    and "plan_loadWeek_resume (Inr ps) v =
           v\<lparr>w_grid := w_grid v @ cards_of ps, w_status := Failed null_date_message\<rparr>"
  using assms
  by (simp_all add: loadWeek_resume_def plan_loadWeek_resume_def render_all_eq failure_text_def
        null_date_message_def)

lemma step_weekPlans:
  "weekPlans (step u e) =
     (case e of
        Settle i (Inr ps) \<Rightarrow> if None \<in> set ps then weekPlans u else Some ps
      | _ \<Rightarrow> weekPlans u)"
  by (cases e)
     (auto simp: loadWeek_begin_def loadWeek_resume_def Let_def render_all_eq
           split: sum.split option.split)

lemma step_grid:
  "grid (step u e) =
     (case e of
        Trigger i s t \<Rightarrow> if starts_load s t then [] else grid u
      | Settle i (Inr ps) \<Rightarrow> grid u @ cards_of ps
      | Settle i (Inl m) \<Rightarrow> grid u)"
  by (cases e)
     (auto simp: loadWeek_begin_def loadWeek_resume_def Let_def render_all_eq
           starts_load_weekDates split: sum.split option.split)

lemma plan_step_weekPlans:
  "w_weekPlans (plan_step u e) =
     (case e of
        Settle i (Inr ps) \<Rightarrow> if None \<in> set ps then w_weekPlans u else Some ps
      | _ \<Rightarrow> w_weekPlans u)"
  by (cases e)
     (auto simp: plan_loadWeek_begin_def plan_loadWeek_resume_def Let_def render_all_eq
           split: sum.split option.split)

lemma plan_step_grid:
  "w_grid (plan_step u e) =
     (case e of
        Trigger i s t \<Rightarrow> if starts_load s t then [] else w_grid u
      | Settle i (Inr ps) \<Rightarrow> w_grid u @ cards_of ps
      | Settle i (Inl m) \<Rightarrow> w_grid u)"
  by (cases e)
     (auto simp: plan_loadWeek_begin_def plan_loadWeek_resume_def Let_def render_all_eq
           starts_load_datesOfWeek split: sum.split option.split)

lemma last_settled_step:
  "last_settled_plans cur (e # evs) =
     last_settled_plans
       (case e of
          Settle i (Inr ps) \<Rightarrow> if None \<in> set ps then cur else Some ps
        | _ \<Rightarrow> cur) evs"
  by (cases e) (auto split: sum.split)

lemma cards_after_step:
  "cards_after cur (e # evs) =
     cards_after (case e of
                    Trigger i s t \<Rightarrow> if starts_load s t then [] else cur
                  | Settle i (Inr ps) \<Rightarrow> cur @ cards_of ps
                  | Settle i (Inl m) \<Rightarrow> cur) evs"
  by (cases e) (auto split: sum.split)

lemma run_weekPlans: "weekPlans (run u evs) = last_settled_plans (weekPlans u) evs"
  unfolding run_def
proof (induction evs arbitrary: u)
  case Nil
  show ?case by simp
next
  case (Cons e evs)
  show ?case
    by (simp only: foldl_Cons Cons.IH step_weekPlans last_settled_step)
qed

lemma run_grid: "grid (run u evs) = cards_after (grid u) evs"
  unfolding run_def
proof (induction evs arbitrary: u)
  case Nil
  show ?case by simp
next
  case (Cons e evs)
  show ?case
    by (simp only: foldl_Cons Cons.IH step_grid cards_after_step)
qed

lemma plan_run_weekPlans: "w_weekPlans (plan_run u evs) = last_settled_plans (w_weekPlans u) evs"
  unfolding plan_run_def
proof (induction evs arbitrary: u)
  case Nil
  show ?case by simp
next
  case (Cons e evs)
  show ?case
    by (simp only: foldl_Cons Cons.IH plan_step_weekPlans last_settled_step)
qed

lemma plan_run_grid: "w_grid (plan_run u evs) = cards_after (w_grid u) evs"
  unfolding plan_run_def
proof (induction evs arbitrary: u)
  case Nil
  show ?case by simp
next
  case (Cons e evs)
  show ?case
    by (simp only: foldl_Cons Cons.IH plan_step_grid cards_after_step)
qed

text \<open>
  The two scenes in which a load leaves the grid half done.  A grid shows a card
  and the start field holds a text that is not a date, so that \<open>new Date\<close> makes an
  Invalid Date of it: the trigger clears the alerts (in \<open>ui/plan.js\<close>, sets the
  status to \<open>Loading\<close>) and nothing else, and the card stays.  And a week arrives
  whose second day is \<open>null\<close>: the card of the first day is appended, the error is
  shown, and nothing is stored.
\<close>

lemma half_done_loads:
  "run \<lparr>grid = [groceries ''Milk''], weekPlans = None,
        alert_ok = Some ''Week loaded.'', alert_err = None\<rparr>
     [Trigger 2 ''next week'' None]
   = \<lparr>grid = [groceries ''Milk''], weekPlans = None, alert_ok = None, alert_err = None\<rparr>"
  "run \<lparr>grid = [], weekPlans = None, alert_ok = None, alert_err = None\<rparr>
     [Settle 1 (Inr [Some (groceries ''Eggs''), None, Some (groceries ''Milk'')])]
   = \<lparr>grid = [groceries ''Eggs''], weekPlans = None, alert_ok = None,
      alert_err = Some ''Cannot read properties of null (reading 'date')''\<rparr>"
  "plan_run \<lparr>w_grid = [groceries ''Milk''], w_weekPlans = None, w_status = Loaded\<rparr>
     [Trigger 2 ''next week'' None]
   = \<lparr>w_grid = [groceries ''Milk''], w_weekPlans = None, w_status = Loading\<rparr>"
  "plan_run \<lparr>w_grid = [], w_weekPlans = None, w_status = Loading\<rparr>
     [Settle 1 (Inr [Some (groceries ''Eggs''), None, Some (groceries ''Milk'')])]
   = \<lparr>w_grid = [groceries ''Eggs''], w_weekPlans = None,
      w_status = Failed ''Cannot read properties of null (reading 'date')''\<rparr>"
  by (simp_all add: run_def plan_run_def loadWeek_begin_def loadWeek_resume_def
        plan_loadWeek_begin_def plan_loadWeek_resume_def weekDates_def datesOfWeek_def
        setUTCDate_plus_def renderDayCard_def failure_text_def null_date_message_def)

text \<open>
  C8 as stated fails: neither loader keeps a request number.  Load 1 is triggered
  for the week of 2024-01-01, then load 2 for the week of 2024-01-08 (the time
  values are those of the two midnights).  Load 2 settles first, with a week of
  eggs; then load 1 settles, with a week of milk.  The most recently triggered
  load delivered the eggs, but the stored list is the milk, and the grid shows the
  cards of both loads.
\<close>

theorem stale_week_load_counterexample:
  "newest_load_plans
     [Trigger 1 ''2024-01-01'' (Some 1704067200000), Trigger 2 ''2024-01-08'' (Some 1704672000000),
      Settle 2 (Inr (week_of (groceries ''Eggs''))), Settle 1 (Inr (week_of (groceries ''Milk'')))]
     = Some (week_of (groceries ''Eggs''))
   \<and> run \<lparr>grid = [], weekPlans = None, alert_ok = None, alert_err = None\<rparr>
     [Trigger 1 ''2024-01-01'' (Some 1704067200000), Trigger 2 ''2024-01-08'' (Some 1704672000000),
      Settle 2 (Inr (week_of (groceries ''Eggs''))), Settle 1 (Inr (week_of (groceries ''Milk'')))]
     = \<lparr>grid = replicate 7 (groceries ''Eggs'') @ replicate 7 (groceries ''Milk''),
        weekPlans = Some (week_of (groceries ''Milk'')),
        alert_ok = Some ''Week loaded.'', alert_err = None\<rparr>
   \<and> plan_run \<lparr>w_grid = [], w_weekPlans = None, w_status = Blank\<rparr>
     [Trigger 1 ''2024-01-01'' (Some 1704067200000), Trigger 2 ''2024-01-08'' (Some 1704672000000),
      Settle 2 (Inr (week_of (groceries ''Eggs''))), Settle 1 (Inr (week_of (groceries ''Milk'')))]
     = \<lparr>w_grid = replicate 7 (groceries ''Eggs'') @ replicate 7 (groceries ''Milk''),
        w_weekPlans = Some (week_of (groceries ''Milk'')),
        w_status = Loaded\<rparr>
   \<and> week_of (groceries ''Eggs'') \<noteq> week_of (groceries ''Milk'')"
  by (simp add: newest_load_plans_def run_def plan_run_def loadWeek_begin_def loadWeek_resume_def
        plan_loadWeek_begin_def plan_loadWeek_resume_def weekDates_def datesOfWeek_def
        starts_load_def setUTCDate_plus_def MAX_TIME_def MS_PER_DAY_def renderDayCard_def
        week_of_def groceries_def eval_nat_numeral)

text \<open>
  C8, amended.  The loaders apply the results of loads in the order in which the
  loads settle.  After any sequence of triggers and settlements, the stored list
  is the one of the load that was the last to settle with seven plans (whether or
  not a newer load has been triggered in the meantime); a settlement that failed
  or that delivered a \<open>null\<close> stores nothing.  The grid holds the cards rendered
  since a trigger last cleared it, in the order of settling, where a settlement
  contributes the cards of its plans before the first \<open>null\<close>, and a trigger
  clears the grid only if its start string is not empty and its dates can be
  formatted.
\<close>

theorem week_load_last_settled_wins:
  "weekPlans (run u evs) = last_settled_plans (weekPlans u) evs
   \<and> grid (run u evs) = cards_after (grid u) evs
   \<and> w_weekPlans (plan_run v evs) = last_settled_plans (w_weekPlans v) evs
   \<and> w_grid (plan_run v evs) = cards_after (w_grid v) evs"
  by (simp add: run_weekPlans run_grid plan_run_weekPlans plan_run_grid)


section \<open>Unit conversion\<close>

lemma round_null: "round1 Null = Num 0" "round0 Null = Num 0"
  by (simp_all add: round1_def round0_def arith_def Math_round_def EPSILON_def floor_unique)

lemma round_undefined: "round1 Undefined = NaN" "round0 Undefined = NaN" "round1 NaN = NaN" "round0 NaN = NaN"
  by (simp_all add: round1_def round0_def arith_def Math_round_def)

lemma converters_missing:
  assumes "a = Null \<or> a = Undefined"
  shows "kgToLb a = Null" "lbToKg a = Null" "cmToIn a = Null" "inToCm a = Null"
  using assms by (auto simp: kgToLb_def lbToKg_def cmToIn_def inToCm_def is_nullish_def)

lemma converters_nan: "kgToLb NaN = NaN" "lbToKg NaN = NaN" "cmToIn NaN = NaN" "inToCm NaN = NaN"
  by (simp_all add: kgToLb_def lbToKg_def cmToIn_def inToCm_def is_nullish_def arith_def)

lemma profile_unit_no_value:
  assumes "missing_or_non_numeric a"
  shows "no_value (profile_kgToLb a)" "no_value (profile_lbToKg a)" "no_value (profile_cmToIn a)"
    "no_value (profile_inToCm a)" "no_value (profile_round1 a)"
  using assms
  by (auto simp: missing_or_non_numeric_def no_value_def profile_kgToLb_def profile_lbToKg_def
        profile_cmToIn_def profile_inToCm_def profile_round1_def is_nullish_def isNaN_def)

text \<open>
  C9 at the inputs where the code departs from it.  In \<open>ui/app.js\<close> the rounding
  functions have no guard: \<open>round1(null)\<close> and \<open>round0(null)\<close> are the number 0,
  and so is \<open>round1\<close> of the \<open>null\<close> that \<open>kgToLb\<close> returns for a missing weight;
  the converters of \<open>ui/app.js\<close> pass \<open>NaN\<close> through.  The functions of
  \<open>ui/profile.js\<close> return \<open>null\<close> or the empty string at the same inputs
  (\<open>profile_unit_no_value\<close>).
\<close>

theorem unit_rounding_of_missing_input:
  "missing_or_non_numeric Null
   \<and> round1 Null = Num 0 \<and> round0 Null = Num 0 \<and> \<not> no_value (Num 0)
   \<and> round1 (kgToLb Undefined) = Num 0
   \<and> kgToLb NaN = NaN \<and> \<not> no_value NaN
   \<and> profile_round1 Null = EmptyStr \<and> profile_kgToLb NaN = Null"
  by (simp add: round_null converters_missing converters_nan missing_or_non_numeric_def no_value_def
        profile_round1_def profile_kgToLb_def is_nullish_def isNaN_def)

end
